theory Spec2Isabelle
  imports Complex_Main
begin

section \<open>Numeric values\<close>

text \<open>
  The estimation code of \<^verbatim>\<open>dynamo/tools/estimation_kinetic.py\<close> works on numpy
  arrays of float64. A float64 is modelled as a real number or one of the three special
  values of IEEE-754: the two infinities and NaN. Finite arithmetic is exact (no rounding,
  no overflow to an infinity) and there is a single zero, which stands for \<^verbatim>\<open>+0.0\<close>.
  NaN is kept because the source uses it as a sentinel (\<^verbatim>\<open>np.isnan\<close>), and the
  infinities because numpy returns them, instead of raising, from \<^verbatim>\<open>log 0\<close> and
  from a division by zero.
\<close>

datatype npfloat = Fin real | PInf | NInf | NaN

fun isnan :: "npfloat \<Rightarrow> bool" where
  "isnan NaN = True"
| "isnan _ = False"

fun isfinite :: "npfloat \<Rightarrow> bool" where
  "isfinite (Fin _) = True"
| "isfinite _ = False"

text \<open>The comparison \<^verbatim>\<open>==\<close> of floats: NaN equals nothing, itself included.\<close>

fun feq :: "npfloat \<Rightarrow> npfloat \<Rightarrow> bool" where
  "feq NaN _ = False"
| "feq _ NaN = False"
| "feq a b = (a = b)"

text \<open>The comparison \<^verbatim>\<open><=\<close> of floats: false as soon as one side is NaN.\<close>

fun fle :: "npfloat \<Rightarrow> npfloat \<Rightarrow> bool" where
  "fle NaN _ = False"
| "fle _ NaN = False"
| "fle NInf _ = True"
| "fle _ PInf = True"
| "fle (Fin a) (Fin b) = (a \<le> b)"
| "fle _ _ = False"

fun fneg :: "npfloat \<Rightarrow> npfloat" where
  "fneg (Fin a) = Fin (- a)"
| "fneg PInf = NInf"
| "fneg NInf = PInf"
| "fneg NaN = NaN"

fun fadd :: "npfloat \<Rightarrow> npfloat \<Rightarrow> npfloat" where
  "fadd NaN _ = NaN"
| "fadd _ NaN = NaN"
| "fadd (Fin a) (Fin b) = Fin (a + b)"
| "fadd PInf NInf = NaN"
| "fadd NInf PInf = NaN"
| "fadd PInf _ = PInf"
| "fadd NInf _ = NInf"
| "fadd _ PInf = PInf"
| "fadd _ NInf = NInf"

definition fsub :: "npfloat \<Rightarrow> npfloat \<Rightarrow> npfloat" where
  "fsub a b = fadd a (fneg b)"

text \<open>The sign of a value that is not NaN, as \<open>-1\<close>, \<open>0\<close> or \<open>1\<close>.\<close>

fun fsign :: "npfloat \<Rightarrow> real" where
  "fsign (Fin a) = sgn a"
| "fsign PInf = 1"
| "fsign NInf = - 1"
| "fsign NaN = 0"

definition inf_of_sign :: "real \<Rightarrow> npfloat" where
  "inf_of_sign s = (if s = 0 then NaN else if 0 < s then PInf else NInf)"

fun fmul :: "npfloat \<Rightarrow> npfloat \<Rightarrow> npfloat" where
  "fmul NaN _ = NaN"
| "fmul _ NaN = NaN"
| "fmul (Fin a) (Fin b) = Fin (a * b)"
| "fmul a b = inf_of_sign (fsign a * fsign b)"

text \<open>
  Division never raises on a float array: \<open>x / 0\<close> is an infinity with the sign of
  \<open>x\<close> (the zero being \<^verbatim>\<open>+0.0\<close>), and \<open>0 / 0\<close> and \<open>inf / inf\<close> are NaN.
\<close>

fun fdiv :: "npfloat \<Rightarrow> npfloat \<Rightarrow> npfloat" where
  "fdiv NaN _ = NaN"
| "fdiv _ NaN = NaN"
| "fdiv (Fin a) (Fin b) = (if b = 0 then inf_of_sign (sgn a) else Fin (a / b))"
| "fdiv (Fin a) _ = Fin 0"
| "fdiv a (Fin b) = inf_of_sign (fsign a * (if b < 0 then - 1 else 1))"
| "fdiv _ _ = NaN"

text \<open>\<^verbatim>\<open>np.log\<close>: \<open>-inf\<close> at zero and NaN on the negative numbers.\<close>

fun flog :: "npfloat \<Rightarrow> npfloat" where
  "flog (Fin a) = (if 0 < a then Fin (ln a) else if a = 0 then NInf else NaN)"
| "flog PInf = PInf"
| "flog NInf = NaN"
| "flog NaN = NaN"



text \<open>\<^verbatim>\<open>np.maximum\<close> and \<^verbatim>\<open>np.minimum\<close> propagate NaN.\<close>

definition fmax :: "npfloat \<Rightarrow> npfloat \<Rightarrow> npfloat" where
  "fmax a b = (if isnan a then a else if isnan b then b else if fle a b then b else a)"

definition fmin :: "npfloat \<Rightarrow> npfloat \<Rightarrow> npfloat" where
  "fmin a b = (if isnan a then a else if isnan b then b else if fle a b then a else b)"

text \<open>\<^verbatim>\<open>np.clip(a, lo, hi)\<close> is \<^verbatim>\<open>minimum(maximum(a, lo), hi)\<close>.\<close>

definition np_clip :: "npfloat \<Rightarrow> npfloat \<Rightarrow> npfloat \<Rightarrow> npfloat" where
  "np_clip a lo hi = fmin (fmax a lo) hi"

text \<open>\<^verbatim>\<open>np.sum\<close> and \<^verbatim>\<open>np.prod\<close> of a flat array.\<close>

definition np_sum :: "npfloat list \<Rightarrow> npfloat" where
  "np_sum xs = foldl fadd (Fin 0) xs"


text \<open>What the source raises.\<close>

datatype py_error = IndexError | TypeError | ValueError | AttributeError | OverflowError

section \<open>The parameter and bound manager of \<^verbatim>\<open>kinetic_estimation\<close>\<close>

text \<open>
  The simulator is a collaborator of the estimator (\<^verbatim>\<open>utils_kinetic\<close>). Its
  dynamics are a field of the record: given the kinetic parameters, the initial conditions
  (\<open>None\<close> when \<^verbatim>\<open>integrate\<close> is called without \<^verbatim>\<open>x0\<close>), the time points and the
  method, \<open>dynamics\<close> returns the trajectory \<^verbatim>\<open>x\<close> (time points by species) or the
  error the simulator raises.
\<close>

record simulator =
  methods :: "string list"
  default_method :: string
  sim_params :: "npfloat list"
  sim_x0 :: "npfloat list"
  sim_t :: "npfloat list"
  sim_x :: "npfloat list list"
  dynamics :: "npfloat list \<Rightarrow> npfloat list \<Rightarrow> npfloat list \<Rightarrow> string
                 \<Rightarrow> py_error + npfloat list list"

record kinetic_estimation =
  simulator :: simulator
  ranges :: "(npfloat \<times> npfloat) list"
  fixed_parameters :: "npfloat list"
  n_tot_kin_params :: nat
  n_kin_params :: nat
  n_params :: nat
  popt :: "npfloat list option"
  cost :: "npfloat option"

text \<open>
  One loop of \<^verbatim>\<open>__init__\<close>: \<open>i\<close> is the position written in
  \<^verbatim>\<open>fixed_parameters\<close> (the loop index, plus \<^verbatim>\<open>n_tot_kin_params\<close> in the second
  loop); a range with \<^verbatim>\<open>low == high\<close> stores its value there, any other range is
  appended to \<^verbatim>\<open>ranges\<close>.
\<close>

fun scan_ranges :: "(npfloat \<times> npfloat) list \<Rightarrow> nat \<Rightarrow> npfloat list
    \<Rightarrow> (npfloat \<times> npfloat) list \<Rightarrow> npfloat list \<times> (npfloat \<times> npfloat) list" where
  "scan_ranges [] i fx rs = (fx, rs)"
| "scan_ranges (r # prs) i fx rs =
     (if feq (fst r) (snd r) then scan_ranges prs (Suc i) (fx[i := fst r]) rs
      else scan_ranges prs (Suc i) fx (rs @ [r]))"

definition kinetic_estimation_init ::
    "(npfloat \<times> npfloat) list \<Rightarrow> (npfloat \<times> npfloat) list \<Rightarrow> simulator
     \<Rightarrow> kinetic_estimation" where
  "kinetic_estimation_init param_ranges x0_ranges sim =
     (let fx0 = replicate (length param_ranges + length x0_ranges) NaN;
          (fx1, rs1) = scan_ranges param_ranges 0 fx0 [];
          ntot = length param_ranges;
          nkin = length rs1;
          (fx2, rs2) = scan_ranges x0_ranges ntot fx1 rs1
      in \<lparr> simulator = sim, ranges = rs2, fixed_parameters = fx2,
           n_tot_kin_params = ntot, n_kin_params = nkin, n_params = length rs2,
           popt = None, cost = None \<rparr>)"

text \<open>
  \<^verbatim>\<open>get_bound(axis)\<close>: \<^verbatim>\<open>self.ranges[i][axis]\<close> for every free range. A range has
  two entries, so the axis is a valid index from \<open>-2\<close> to \<open>1\<close> and an IndexError
  otherwise (raised at the first range, if there is one).
\<close>

definition range_at :: "npfloat \<times> npfloat \<Rightarrow> int \<Rightarrow> py_error + npfloat" where
  "range_at r axis =
     (if axis = 0 \<or> axis = - 2 then Inr (fst r)
      else if axis = 1 \<or> axis = - 1 then Inr (snd r)
      else Inl IndexError)"

fun collect :: "('e + 'a) list \<Rightarrow> 'e + 'a list" where
  "collect [] = Inr []"
| "collect (Inl e # _) = Inl e"
| "collect (Inr x # xs) = (case collect xs of Inl e \<Rightarrow> Inl e | Inr ys \<Rightarrow> Inr (x # ys))"

definition range_i :: "'a kinetic_estimation_scheme \<Rightarrow> nat \<Rightarrow> py_error + npfloat \<times> npfloat" where
  "range_i est i = (if i < length (ranges est) then Inr (ranges est ! i) else Inl IndexError)"

definition get_bound :: "'a kinetic_estimation_scheme \<Rightarrow> int \<Rightarrow> py_error + npfloat list" where
  "get_bound est axis =
     collect (map (\<lambda>i. case range_i est i of Inl e \<Rightarrow> Inl e | Inr r \<Rightarrow> range_at r axis)
                  [0 ..< n_params est])"

text \<open>
  The assignment \<^verbatim>\<open>p[np.isnan(p)] = vals\<close> on a copy \<open>p\<close>: numpy writes the values, in
  order, to the positions that hold NaN. It needs as many values as there are such
  positions, or a single value, which it broadcasts; anything else is a ValueError.
\<close>

fun fill_nan :: "npfloat list \<Rightarrow> npfloat list \<Rightarrow> npfloat list" where
  "fill_nan [] vs = []"
| "fill_nan (x # xs) vs =
     (if isnan x then (case vs of [] \<Rightarrow> x # fill_nan xs [] | v # vs' \<Rightarrow> v # fill_nan xs vs')
      else x # fill_nan xs vs)"

definition assign_nan :: "npfloat list \<Rightarrow> npfloat list \<Rightarrow> py_error + npfloat list" where
  "assign_nan p vals =
     (if length vals = length (filter isnan p) then Inr (fill_nan p vals)
      else if length vals = 1 then Inr (map (\<lambda>x. if isnan x then hd vals else x) p)
      else Inl ValueError)"

definition assemble_kin_params :: "'a kinetic_estimation_scheme \<Rightarrow> npfloat list \<Rightarrow> py_error + npfloat list" where
  "assemble_kin_params est unfixed_params =
     assign_nan (take (n_tot_kin_params est) (fixed_parameters est))
                (take (n_kin_params est) unfixed_params)"

definition assemble_x0 :: "'a kinetic_estimation_scheme \<Rightarrow> npfloat list \<Rightarrow> py_error + npfloat list" where
  "assemble_x0 est unfixed_params =
     assign_nan (drop (n_tot_kin_params est) (fixed_parameters est))
                (drop (n_kin_params est) unfixed_params)"

definition get_opt_kin_params :: "'a kinetic_estimation_scheme \<Rightarrow> py_error + npfloat list option" where
  "get_opt_kin_params est =
     (case popt est of None \<Rightarrow> Inr None
      | Some p \<Rightarrow> (case assemble_kin_params est p of Inl e \<Rightarrow> Inl e | Inr v \<Rightarrow> Inr (Some v)))"

definition get_opt_x0_params :: "'a kinetic_estimation_scheme \<Rightarrow> py_error + npfloat list option" where
  "get_opt_x0_params est =
     (case popt est of None \<Rightarrow> Inr None
      | Some p \<Rightarrow> (case assemble_x0 est p of Inl e \<Rightarrow> Inl e | Inr v \<Rightarrow> Inr (Some v)))"

section \<open>Arrays with two axes\<close>

text \<open>
  A two-dimensional array is the list of its rows, all of one length; an array without rows
  is taken to have no columns either. An elementwise operation of numpy broadcasts its two
  operands: along each axis the two lengths have to be equal, or one of them has to be
  \<open>1\<close>, and the operand of length \<open>1\<close> is repeated along that axis; any other pair of
  shapes is a ValueError. \<open>bview A i j\<close> is the entry \<open>(i, j)\<close> of \<open>A\<close> broadcast in
  this way.
\<close>

definition shape_of :: "'a list list \<Rightarrow> nat list" where
  "shape_of A = map length A"

definition dims :: "'a list list \<Rightarrow> nat \<times> nat" where
  "dims A = (length A, case A of [] \<Rightarrow> 0 | r # _ \<Rightarrow> length r)"

definition compat :: "nat \<Rightarrow> nat \<Rightarrow> bool" where
  "compat x y = (x = y \<or> x = 1 \<or> y = 1)"

definition bdim :: "nat \<Rightarrow> nat \<Rightarrow> nat" where
  "bdim x y = (if x = 1 then y else x)"

definition ix :: "nat \<Rightarrow> nat \<Rightarrow> nat" where
  "ix n i = (if n = 1 then 0 else i)"

definition bview :: "'a list list \<Rightarrow> nat \<Rightarrow> nat \<Rightarrow> 'a" where
  "bview A i j = A ! ix (fst (dims A)) i ! ix (snd (dims A)) j"

definition tabulate2 :: "nat \<Rightarrow> nat \<Rightarrow> (nat \<Rightarrow> nat \<Rightarrow> 'a) \<Rightarrow> 'a list list" where
  "tabulate2 r c g = map (\<lambda>i. map (\<lambda>j. g i j) [0 ..< c]) [0 ..< r]"

definition elementwise :: "(npfloat \<Rightarrow> npfloat \<Rightarrow> npfloat) \<Rightarrow> npfloat list list
    \<Rightarrow> npfloat list list \<Rightarrow> py_error + npfloat list list" where
  "elementwise f A B =
     (if shape_of A = shape_of B then Inr (map2 (map2 f) A B)
      else if compat (fst (dims A)) (fst (dims B)) \<and> compat (snd (dims A)) (snd (dims B))
      then Inr (tabulate2 (bdim (fst (dims A)) (fst (dims B))) (bdim (snd (dims A)) (snd (dims B)))
                  (\<lambda>i j. f (bview A i j) (bview B i j)))
      else Inl ValueError)"

text \<open>\<^verbatim>\<open>A.flatten()\<close>, row after row.\<close>

definition flatten :: "npfloat list list \<Rightarrow> npfloat list" where
  "flatten A = concat A"

text \<open>\<^verbatim>\<open>np.max(A, 1)\<close>: the maximum of every row; a row without entries is a ValueError.\<close>

definition row_max :: "npfloat list \<Rightarrow> py_error + npfloat" where
  "row_max r = (case r of [] \<Rightarrow> Inl ValueError | x # xs \<Rightarrow> Inr (foldl fmax x xs))"

definition np_max_axis1 :: "npfloat list list \<Rightarrow> py_error + npfloat list" where
  "np_max_axis1 A = collect (map row_max A)"

text \<open>
  \<^verbatim>\<open>(A.T / scale).T\<close>: the transposed array is divided by the flat array \<open>scale\<close>,
  which numpy broadcasts along the rows of \<open>A\<close>. Row \<open>i\<close> of the result is row \<open>i\<close> of
  \<open>A\<close> divided by \<open>scale[i]\<close>; a single row, or a single entry of \<open>scale\<close>, is
  repeated.
\<close>

definition div_rows :: "npfloat list list \<Rightarrow> npfloat list \<Rightarrow> py_error + npfloat list list" where
  "div_rows A scale =
     (if compat (length A) (length scale)
      then Inr (map (\<lambda>i. map (\<lambda>v. fdiv v (scale ! ix (length scale) i)) (A ! ix (length A) i))
                    [0 ..< bdim (length A) (length scale)])
      else Inl ValueError)"

section \<open>The simulator capability\<close>

text \<open>
  Modelled from the spec: the simulator classes of \<^verbatim>\<open>utils_kinetic\<close> are not part of
  the sources at hand. The spec gives their contract: \<^verbatim>\<open>set_params(*kinetic_params)\<close>
  stores the parameters, \<^verbatim>\<open>integrate(t, x0=None, method=None)\<close> populates \<^verbatim>\<open>.t\<close> and
  \<^verbatim>\<open>.x\<close>, with \<^verbatim>\<open>.x0\<close> settable and \<^verbatim>\<open>.default_method\<close> the method used when none
  is given.
\<close>

definition set_params :: "simulator \<Rightarrow> npfloat list \<Rightarrow> simulator" where
  "set_params sim ps = sim\<lparr>sim_params := ps\<rparr>"

definition integrate :: "simulator \<Rightarrow> npfloat list \<Rightarrow> npfloat list option \<Rightarrow> string option
    \<Rightarrow> py_error + simulator" where
  "integrate sim t x0 method =
     (let x0' = (case x0 of None \<Rightarrow> sim_x0 sim | Some v \<Rightarrow> v);
          m = (case method of None \<Rightarrow> default_method sim | Some m \<Rightarrow> m)
      in case dynamics sim (sim_params sim) x0' t m of
           Inl e \<Rightarrow> Inl e
         | Inr x \<Rightarrow> Inr (sim\<lparr>sim_t := t, sim_x0 := x0', sim_x := x\<rparr>))"

section \<open>The core estimator\<close>

text \<open>\<^verbatim>\<open>normalize_data\<close>: \<^verbatim>\<open>np.log(X + 1)\<close>, entry by entry.\<close>

definition log1 :: "npfloat \<Rightarrow> npfloat" where
  "log1 x = flog (fadd x (Fin 1))"

definition normalize_data :: "npfloat list list \<Rightarrow> npfloat list list" where
  "normalize_data X = map (map log1) X"

text \<open>\<^verbatim>\<open>extract_data_from_simulator\<close> of the base class: \<^verbatim>\<open>self.simulator.x.T\<close>.\<close>

definition extract_data_from_simulator :: "simulator \<Rightarrow> npfloat list list" where
  "extract_data_from_simulator sim = transpose (sim_x sim)"

definition nan_to_zero :: "npfloat list list \<Rightarrow> npfloat list list" where
  "nan_to_zero A = map (map (\<lambda>v. if isnan v then Fin 0 else v)) A"

definition unsupported_method_warning :: "string \<Rightarrow> string \<Rightarrow> string" where
  "unsupported_method_warning m m0 =
     ''The simulator does not support method '' @ [CHR 0x27] @ m @ [CHR 0x27]
       @ ''. Using method '' @ [CHR 0x27] @ m0 @ [CHR 0x27] @ '' instead.''"

text \<open>
  The method that \<^verbatim>\<open>f_lsq\<close> uses, with the warnings it emits. The text of the warning
  reads \<^verbatim>\<open>self.simulator.methods[0]\<close>, an IndexError when the simulator lists no method.
\<close>

definition choose_method :: "simulator \<Rightarrow> string option \<Rightarrow> py_error + string list \<times> string" where
  "choose_method sim method =
     (let m = (case method of None \<Rightarrow> default_method sim | Some m \<Rightarrow> m)
      in if m \<notin> set (methods sim) then
           (case methods sim of [] \<Rightarrow> Inl IndexError
            | m0 # _ \<Rightarrow> Inr ([unsupported_method_warning m m0], default_method sim))
         else Inr ([], m))"

text \<open>
  \<^verbatim>\<open>f_lsq\<close> of the base class. The result holds the estimator with its simulator as the
  call leaves it, the warnings emitted and the residual. Without normalisation \<open>ret\<close> is a
  view of the simulator's \<^verbatim>\<open>x\<close>, so the replacement of NaN reaches \<^verbatim>\<open>x\<close> as well.
\<close>

definition f_lsq :: "kinetic_estimation \<Rightarrow> npfloat list \<Rightarrow> npfloat list \<Rightarrow> npfloat list list
    \<Rightarrow> string option \<Rightarrow> bool \<Rightarrow> py_error + kinetic_estimation \<times> string list \<times> npfloat list" where
  "f_lsq est params t x_data method normalize' =
     (case choose_method (simulator est) method of Inl e \<Rightarrow> Inl e
      | Inr (warns, m) \<Rightarrow>
     (case assemble_kin_params est params of Inl e \<Rightarrow> Inl e
      | Inr kp \<Rightarrow>
     (case assemble_x0 est params of Inl e \<Rightarrow> Inl e
      | Inr x0 \<Rightarrow>
     (case integrate (set_params (simulator est) kp) t (Some x0) (Some m) of Inl e \<Rightarrow> Inl e
      | Inr sim \<Rightarrow>
        (let ret0 = extract_data_from_simulator sim;
             ret1 = (if normalize' then normalize_data ret0 else ret0);
             ret = nan_to_zero ret1;
             sim' = (if normalize' then sim else sim\<lparr>sim_x := nan_to_zero (sim_x sim)\<rparr>)
         in case elementwise fsub ret x_data of Inl e \<Rightarrow> Inl e
            | Inr d \<Rightarrow> Inr (est\<lparr>simulator := sim'\<rparr>, warns, flatten d))))))"

text \<open>
  \<^verbatim>\<open>sample_p0\<close>. The random numbers come from outside: \<open>lhsclassic\<close> is the design
  that \<^verbatim>\<open>utils.lhsclassic(samples, n_params)\<close> returns, and \<open>rand k\<close> is the \<open>k\<close>-th
  draw of \<^verbatim>\<open>np.random.rand()\<close>, the draws being made row by row.
\<close>

record rng =
  lhsclassic :: "nat \<Rightarrow> nat \<Rightarrow> npfloat list list"
  rand :: "nat \<Rightarrow> npfloat"

definition rescale :: "npfloat \<Rightarrow> npfloat \<times> npfloat \<Rightarrow> npfloat" where
  "rescale v r = fadd (fmul v (fsub (snd r) (fst r))) (fst r)"

definition sample_p0 :: "'a kinetic_estimation_scheme \<Rightarrow> rng \<Rightarrow> nat \<Rightarrow> string
    \<Rightarrow> py_error + npfloat list list" where
  "sample_p0 est g samples method =
     (if n_params est > length (ranges est) \<and> (method = ''lhs'' \<or> 0 < samples)
      then Inl IndexError
      else if method = ''lhs'' then
        (let H = lhsclassic g samples (n_params est)
         in if list_ex (\<lambda>row. length row < n_params est) H then Inl IndexError
            else Inr (map (\<lambda>row. map (\<lambda>i. if i < n_params est
                                           then rescale (row ! i) (ranges est ! i)
                                           else row ! i) [0 ..< length row]) H))
      else Inr (map (\<lambda>n. map (\<lambda>i. rescale (rand g (n * n_params est + i)) (ranges est ! i))
                               [0 ..< n_params est]) [0 ..< samples]))"

text \<open>
  \<^verbatim>\<open>np.argmin\<close> of a flat array: the first position of the minimum, the first NaN
  counting as the minimum; a ValueError on the empty array.
\<close>

fun argmin_scan :: "npfloat list \<Rightarrow> nat \<Rightarrow> nat \<Rightarrow> npfloat \<Rightarrow> nat" where
  "argmin_scan [] i b bv = b"
| "argmin_scan (c # cs) i b bv =
     (if isnan bv then b
      else if isnan c \<or> \<not> fle bv c then argmin_scan cs (Suc i) i c
      else argmin_scan cs (Suc i) b bv)"

definition np_argmin :: "npfloat list \<Rightarrow> py_error + nat" where
  "np_argmin cs = (case cs of [] \<Rightarrow> Inl ValueError | c # rest \<Rightarrow> Inr (argmin_scan rest 1 0 c))"

text \<open>
  \<^verbatim>\<open>scipy.optimize.least_squares\<close> is a parameter of the model. The residual function
  changes the simulator and nothing else of the estimator, so the simulator is the state
  that goes through the optimizer: the optimizer receives the residual function, the
  simulator, the start and the bounds, and returns the simulator after its last evaluation,
  the warnings, \<^verbatim>\<open>ret.x\<close> and \<^verbatim>\<open>ret.cost\<close>, or the error it raises.
\<close>

type_synonym residual_fun =
  "simulator \<Rightarrow> npfloat list \<Rightarrow> py_error + simulator \<times> string list \<times> npfloat list"

type_synonym least_squares =
  "residual_fun \<Rightarrow> simulator \<Rightarrow> npfloat list \<Rightarrow> npfloat list \<times> npfloat list
     \<Rightarrow> py_error + simulator \<times> string list \<times> npfloat list \<times> npfloat"

datatype p0_arg = P0_none | P0_1d "npfloat list" | P0_2d "npfloat list list"

text \<open>The loop of \<^verbatim>\<open>fit_lsq\<close> over the starts \<^verbatim>\<open>p0[i]\<close>, \<open>i\<close> in \<^verbatim>\<open>range(n_p0)\<close>.\<close>

fun run_starts :: "least_squares \<Rightarrow> residual_fun \<Rightarrow> simulator \<Rightarrow> npfloat list list
    \<Rightarrow> npfloat list \<times> npfloat list \<Rightarrow> nat list
    \<Rightarrow> py_error + simulator \<times> string list \<times> (npfloat list \<times> npfloat) list" where
  "run_starts lsq f sim starts b [] = Inr (sim, [], [])"
| "run_starts lsq f sim starts b (i # js) =
     (if i < length starts then
        (case lsq f sim (starts ! i) b of Inl e \<Rightarrow> Inl e
         | Inr (sim1, w1, x, c) \<Rightarrow>
           (case run_starts lsq f sim1 starts b js of Inl e \<Rightarrow> Inl e
            | Inr (sim2, w2, rs) \<Rightarrow> Inr (sim2, w1 @ w2, (x, c) # rs)))
      else Inl IndexError)"

text \<open>
  The data that \<^verbatim>\<open>fit_lsq\<close> fits (\<^verbatim>\<open>x_data_norm\<close>), and the residual function it hands
  to the optimizer: \<^verbatim>\<open>lambda p: self.f_lsq(p, t, x_data_norm, method, normalize)\<close>.
\<close>

definition fit_target :: "npfloat list list \<Rightarrow> bool \<Rightarrow> npfloat list list" where
  "fit_target x_data normalize' = (if normalize' then normalize_data x_data else x_data)"

definition fit_residual :: "kinetic_estimation \<Rightarrow> npfloat list \<Rightarrow> npfloat list list
    \<Rightarrow> string option \<Rightarrow> bool \<Rightarrow> residual_fun" where
  "fit_residual est t x_data method normalize' =
     (\<lambda>sim p. case f_lsq (est\<lparr>simulator := sim\<rparr>) p t (fit_target x_data normalize')
                        method normalize' of
                 Inl e \<Rightarrow> Inl e
               | Inr (est', w, r) \<Rightarrow> Inr (simulator est', w, r))"

definition fit_lsq :: "kinetic_estimation \<Rightarrow> least_squares \<Rightarrow> rng \<Rightarrow> npfloat list
    \<Rightarrow> npfloat list list \<Rightarrow> p0_arg \<Rightarrow> nat \<Rightarrow> (npfloat list \<times> npfloat list) option \<Rightarrow> string
    \<Rightarrow> string option \<Rightarrow> bool
    \<Rightarrow> py_error + kinetic_estimation \<times> string list \<times> npfloat list \<times> npfloat" where
  "fit_lsq est lsq g t x_data p0 n_p0 bounds sample_method method normalize' =
     (case (case p0 of P0_none \<Rightarrow> sample_p0 est g n_p0 sample_method
                     | P0_1d v \<Rightarrow> Inr [v] | P0_2d A \<Rightarrow> Inr A) of Inl e \<Rightarrow> Inl e
      | Inr starts \<Rightarrow>
     (case (case bounds of Some b \<Rightarrow> Inr b
            | None \<Rightarrow> (case get_bound est 0 of Inl e \<Rightarrow> Inl e
                        | Inr lb \<Rightarrow> (case get_bound est 1 of Inl e \<Rightarrow> Inl e
                                      | Inr ub \<Rightarrow> Inr (lb, ub)))) of Inl e \<Rightarrow> Inl e
      | Inr b \<Rightarrow>
        (let n = (case p0 of P0_none \<Rightarrow> n_p0 | _ \<Rightarrow> length starts)
         in case run_starts lsq (fit_residual est t x_data method normalize') (simulator est)
                   starts b [0 ..< n] of
              Inl e \<Rightarrow> Inl e
            | Inr (sim1, warns, rs) \<Rightarrow>
              (case np_argmin (map snd rs) of Inl e \<Rightarrow> Inl e
               | Inr i_min \<Rightarrow>
                   Inr (est\<lparr>simulator := sim1, popt := Some (fst (rs ! i_min)),
                            cost := Some (snd (rs ! i_min))\<rparr>,
                        warns, fst (rs ! i_min), snd (rs ! i_min))))))"

section \<open>The chi-square test\<close>

datatype data_arg = Data_1d "npfloat list" | Data_2d "npfloat list list"

text \<open>\<^verbatim>\<open>x_model[species]\<close> for a list of row indices.\<close>

definition select_rows :: "npfloat list list \<Rightarrow> nat list \<Rightarrow> py_error + npfloat list list" where
  "select_rows A idx = collect (map (\<lambda>i. if i < length A then Inr (A ! i) else Inl IndexError) idx)"

text \<open>
  \<^verbatim>\<open>test_chi2\<close>. The distribution function \<^verbatim>\<open>scipy.stats.chi2.cdf\<close> is a parameter.
  Only the number of entries of \<^verbatim>\<open>np.unique(t)\<close> is used: the number of distinct values
  of \<open>t\<close>.
\<close>

definition chi2_sum :: "npfloat list list \<Rightarrow> npfloat list list \<Rightarrow> py_error + npfloat" where
  "chi2_sum x_data_norm x_model_norm =
     (case elementwise fsub x_data_norm x_model_norm of Inl e \<Rightarrow> Inl e
      | Inr d \<Rightarrow>
     (case elementwise fdiv (map (map (\<lambda>v. fmul v v)) d) x_model_norm of Inl e \<Rightarrow> Inl e
      | Inr q \<Rightarrow> Inr (np_sum (flatten q))))"

definition test_chi2 :: "kinetic_estimation \<Rightarrow> (npfloat \<Rightarrow> int \<Rightarrow> npfloat) \<Rightarrow> npfloat list
    \<Rightarrow> data_arg \<Rightarrow> nat list option \<Rightarrow> string option \<Rightarrow> bool
    \<Rightarrow> py_error + kinetic_estimation \<times> (npfloat \<times> npfloat \<times> int)" where
  "test_chi2 est chi2_cdf t x_data species method normalize' =
     (let X = (case x_data of Data_1d v \<Rightarrow> [v] | Data_2d A \<Rightarrow> A)
      in case integrate (simulator est) t None method of Inl e \<Rightarrow> Inl e
         | Inr sim \<Rightarrow>
        (case (case species of None \<Rightarrow> Inr (transpose (sim_x sim))
               | Some idx \<Rightarrow> select_rows (transpose (sim_x sim)) idx) of Inl e \<Rightarrow> Inl e
         | Inr x_model \<Rightarrow>
        (case (if normalize' then
                 (case np_max_axis1 X of Inl e \<Rightarrow> Inl e
                  | Inr scale \<Rightarrow>
                 (case div_rows X scale of Inl e \<Rightarrow> Inl e
                  | Inr dn \<Rightarrow>
                 (case div_rows x_model scale of Inl e \<Rightarrow> Inl e
                  | Inr mn \<Rightarrow> Inr (dn, mn))))
               else Inr (X, x_model)) of Inl e \<Rightarrow> Inl e
         | Inr (x_data_norm, x_model_norm) \<Rightarrow>
        (case chi2_sum x_data_norm x_model_norm of Inl e \<Rightarrow> Inl e
         | Inr c2 \<Rightarrow>
            (let df = int (length (remdups t)) - int (n_params est) - 1;
                 p = fsub (Fin 1) (chi2_cdf c2 df)
             in Inr (est\<lparr>simulator := sim\<rparr>, (p, c2, df)))))))"

section \<open>The guessing heuristics\<close>

text \<open>
  \<^verbatim>\<open>guestimate_gamma\<close>: \<^verbatim>\<open>x_data[0]\<close>, \<^verbatim>\<open>x_data[-1]\<close> and \<^verbatim>\<open>time[-1]\<close> are
  IndexErrors on empty arrays; the arguments are evaluated from left to right.
\<close>

definition guestimate_gamma :: "npfloat list \<Rightarrow> npfloat list \<Rightarrow> py_error + npfloat" where
  "guestimate_gamma x_data time =
     (if x_data = [] then Inl IndexError
      else if time = [] then Inl IndexError
      else Inr (np_clip (fdiv (flog (fdiv (hd x_data) (fadd (last x_data) (Fin (1 / 10 ^ 6)))))
                              (last time))
                        (Fin (1 / 10 ^ 3)) (Fin (10 ^ 3))))"

section \<open>The degradation estimators\<close>

record estimation_degradation = kinetic_estimation +
  kin_param_keys :: "string list"

text \<open>
  \<^verbatim>\<open>Estimation_Degradation.__init__(ranges, x0, simulator)\<close>: the keys are set, and
  \<^verbatim>\<open>np.vstack((np.zeros(2), ranges))\<close> puts the range \<open>[0, 0]\<close> of alpha before the
  ranges given (one row when \<^verbatim>\<open>ranges\<close> is a single range).
\<close>

definition estimation_degradation_init ::
    "(npfloat \<times> npfloat) list \<Rightarrow> (npfloat \<times> npfloat) list \<Rightarrow> simulator
     \<Rightarrow> estimation_degradation" where
  "estimation_degradation_init rngs x0 sim =
     kinetic_estimation.extend (kinetic_estimation_init ((Fin 0, Fin 0) # rngs) x0 sim)
       (estimation_degradation.fields [''alpha'', ''gamma''])"

text \<open>A scalar parameter \<open>v\<close> becomes the range \<^verbatim>\<open>v * np.ones(2)\<close>.\<close>

datatype param_arg = Scalar npfloat | Range npfloat npfloat

fun as_range :: "param_arg \<Rightarrow> npfloat \<times> npfloat" where
  "as_range (Scalar v) = (fmul v (Fin 1), fmul v (Fin 1))"
| "as_range (Range lo hi) = (lo, hi)"

text \<open>
  \<^verbatim>\<open>Estimation_DeterministicDegNosp._initialize(gamma, x0)\<close>: a scalar \<^verbatim>\<open>x0\<close> is passed
  on as it is and \<^verbatim>\<open>len(x0_ranges)\<close> raises a TypeError; an array with one axis becomes
  the only row of the ranges of the initial conditions.
\<close>

datatype x0_arg = X0_scalar npfloat | X0_1d npfloat npfloat | X0_2d "(npfloat \<times> npfloat) list"

definition estimation_deterministic_deg_nosp_initialize ::
    "param_arg \<Rightarrow> x0_arg \<Rightarrow> simulator \<Rightarrow> py_error + estimation_degradation" where
  "estimation_deterministic_deg_nosp_initialize gamma x0 sim =
     (case x0 of X0_scalar _ \<Rightarrow> Inl TypeError
      | X0_1d lo hi \<Rightarrow> Inr (estimation_degradation_init [as_range gamma] [(lo, hi)] sim)
      | X0_2d rs \<Rightarrow> Inr (estimation_degradation_init [as_range gamma] rs sim))"

text \<open>
  \<^verbatim>\<open>Estimation_DeterministicDeg._initialize(beta, gamma, x0)\<close>; the keys are those that
  \<^verbatim>\<open>Estimation_Degradation.__init__\<close> sets.
\<close>

definition estimation_deterministic_deg_initialize ::
    "param_arg \<Rightarrow> param_arg \<Rightarrow> (npfloat \<times> npfloat) list \<Rightarrow> simulator \<Rightarrow> estimation_degradation" where
  "estimation_deterministic_deg_initialize beta gamma x0 sim =
     estimation_degradation_init [as_range beta, as_range gamma] x0 sim"

text \<open>
  \<^verbatim>\<open>get_param(key)\<close>: \<^verbatim>\<open>np.where(self.kin_param_keys == key)[0][0]\<close> is the first
  position of the key, an IndexError when the key is absent; \<^verbatim>\<open>self.popt[...]\<close> is a
  TypeError before any fit and an IndexError past the end of \<^verbatim>\<open>popt\<close>.
\<close>

fun first_index :: "'a list \<Rightarrow> 'a \<Rightarrow> nat option" where
  "first_index [] k = None"
| "first_index (x # xs) k = (if x = k then Some 0 else map_option Suc (first_index xs k))"

definition popt_at :: "'a kinetic_estimation_scheme \<Rightarrow> nat \<Rightarrow> py_error + npfloat" where
  "popt_at est i =
     (case popt est of None \<Rightarrow> Inl TypeError
      | Some p \<Rightarrow> if i < length p then Inr (p ! i) else Inl IndexError)"

definition get_param :: "estimation_degradation \<Rightarrow> string \<Rightarrow> py_error + npfloat" where
  "get_param est key =
     (case first_index (kin_param_keys est) key of None \<Rightarrow> Inl IndexError
      | Some i \<Rightarrow> popt_at est i)"

definition calc_half_life :: "estimation_degradation \<Rightarrow> string \<Rightarrow> py_error + npfloat" where
  "calc_half_life est key =
     (case get_param est key of Inl e \<Rightarrow> Inl e | Inr v \<Rightarrow> Inr (fdiv (Fin (ln 2)) v))"

text \<open>
  The fitted value of the kinetic parameter named \<open>key\<close>: its entry in the assembled
  vector of \<^verbatim>\<open>get_opt_kin_params\<close>, whose order is that of \<^verbatim>\<open>kin_param_keys\<close>.
\<close>

definition fitted_value :: "estimation_degradation \<Rightarrow> string \<Rightarrow> npfloat option" where
  "fitted_value est key =
     (case (first_index (kin_param_keys est) key, get_opt_kin_params est) of
        (Some i, Inr (Some v)) \<Rightarrow> (if i < length v then Some (v ! i) else None)
      | _ \<Rightarrow> None)"

section \<open>The kinetics estimators with moments\<close>

text \<open>
  \<^verbatim>\<open>Estimation_MomentKinNosp.__init__\<close>: five kinetic ranges and the initial conditions
  \<^verbatim>\<open>np.zeros((5, 2))\<close>, five ranges \<open>[0, 0]\<close>.
\<close>

definition estimation_moment_kin_nosp_init ::
    "param_arg \<Rightarrow> param_arg \<Rightarrow> param_arg \<Rightarrow> param_arg \<Rightarrow> param_arg \<Rightarrow> simulator
     \<Rightarrow> kinetic_estimation" where
  "estimation_moment_kin_nosp_init a b alpha_a alpha_i gamma sim =
     kinetic_estimation_init
       [as_range a, as_range b, as_range alpha_a, as_range alpha_i, as_range gamma]
       (replicate 5 (Fin 0, Fin 0)) sim"

definition get_alpha_a :: "kinetic_estimation \<Rightarrow> py_error + npfloat" where
  "get_alpha_a est = popt_at est 2"

definition get_alpha_i :: "kinetic_estimation \<Rightarrow> py_error + npfloat" where
  "get_alpha_i est = popt_at est 3"

text \<open>
  \<^verbatim>\<open>Estimation_MomentKin.get_alpha\<close>:
  \<^verbatim>\<open>self.simulator.fbar(self.get_alpha_a(), self.get_alpha_i())\<close>, with the method
  \<^verbatim>\<open>fbar\<close> of the simulator as a parameter.
\<close>

definition get_alpha :: "(npfloat \<Rightarrow> npfloat \<Rightarrow> py_error + npfloat) \<Rightarrow> kinetic_estimation
    \<Rightarrow> py_error + npfloat" where
  "get_alpha fbar est =
     (case get_alpha_a est of Inl e \<Rightarrow> Inl e
      | Inr a \<Rightarrow> (case get_alpha_i est of Inl e \<Rightarrow> Inl e | Inr i \<Rightarrow> fbar a i))"

text \<open>
  \<^verbatim>\<open>Estimation_MomentKinNosp.get_alpha\<close>:
  \<^verbatim>\<open>self.simulator.fbar(self.get_alpha_a(). self.get_alpha_i())\<close>. The only argument is
  the attribute \<^verbatim>\<open>self\<close> of the value of \<^verbatim>\<open>get_alpha_a()\<close>; that value is a float,
  which has no such attribute, so an AttributeError is raised once \<^verbatim>\<open>get_alpha_a()\<close> has
  returned. Neither \<^verbatim>\<open>get_alpha_i\<close> nor \<^verbatim>\<open>fbar\<close> is called.
\<close>

definition get_alpha_nosp :: "(npfloat \<Rightarrow> npfloat \<Rightarrow> py_error + npfloat) \<Rightarrow> kinetic_estimation
    \<Rightarrow> py_error + npfloat" where
  "get_alpha_nosp fbar est =
     (case get_alpha_a est of Inl e \<Rightarrow> Inl e | Inr a \<Rightarrow> Inl AttributeError)"

section \<open>The goodness-of-fit evaluator\<close>



text \<open>
  The first lines of both likelihood functions: the copy of \<^verbatim>\<open>sigm\<close> with every entry
  equal to zero set to one, with the warning when there is such an entry, and the flat
  array \<^verbatim>\<open>err\<close>. An array that \<^verbatim>\<open>prepare_data\<close> has not set is \<^verbatim>\<open>None\<close>, and the
  arithmetic on it is a TypeError.
\<close>

definition is_zero :: "npfloat \<Rightarrow> bool" where
  "is_zero v = feq v (Fin 0)"








section \<open>Notions used in the statements\<close>

text \<open>A range is fixed when \<^verbatim>\<open>low == high\<close>; its fixed value is that bound.\<close>

definition is_fixed :: "npfloat \<times> npfloat \<Rightarrow> bool" where
  "is_fixed r = feq (fst r) (snd r)"

definition fixed_value :: "npfloat \<times> npfloat \<Rightarrow> npfloat" where
  "fixed_value r = (if is_fixed r then fst r else NaN)"

definition free_ranges :: "(npfloat \<times> npfloat) list \<Rightarrow> (npfloat \<times> npfloat) list" where
  "free_ranges rs = filter (\<lambda>r. \<not> is_fixed r) rs"

text \<open>The partition of the parameters into fixed and free ones, as the estimator stores it.\<close>

definition partition_of :: "kinetic_estimation
    \<Rightarrow> (npfloat \<times> npfloat) list \<times> npfloat list \<times> nat \<times> nat \<times> nat" where
  "partition_of est =
     (ranges est, fixed_parameters est, n_tot_kin_params est, n_kin_params est, n_params est)"

text \<open>
  The states that an estimator goes through: the methods of \<^verbatim>\<open>kinetic_estimation\<close>
  that change the object are \<^verbatim>\<open>f_lsq\<close>, \<^verbatim>\<open>fit_lsq\<close> and \<^verbatim>\<open>test_chi2\<close>.
\<close>

inductive evolves :: "kinetic_estimation \<Rightarrow> kinetic_estimation \<Rightarrow> bool" where
  constructed: "evolves est est"
| after_f_lsq: "evolves est e1 \<Longrightarrow> f_lsq e1 params t x_data method nz = Inr (e2, w, r)
     \<Longrightarrow> evolves est e2"
| after_fit_lsq: "evolves est e1
     \<Longrightarrow> fit_lsq e1 lsq g t x_data p0 n_p0 bounds sample_method method nz = Inr (e2, w, x, c)
     \<Longrightarrow> evolves est e2"
| after_test_chi2: "evolves est e1 \<Longrightarrow> test_chi2 e1 cdf t xd species method nz = Inr (e2, res)
     \<Longrightarrow> evolves est e2"

text \<open>A vector of free parameters lies inside the bounds when every entry does.\<close>

definition within_bounds :: "(npfloat \<times> npfloat) list \<Rightarrow> npfloat list \<Rightarrow> bool" where
  "within_bounds rs v = list_all2 (\<lambda>r x. fle (fst r) x \<and> fle x (snd r)) rs v"

text \<open>The value that \<^verbatim>\<open>ret[np.isnan(ret)] = 0\<close> leaves in the place of \<open>v\<close>.\<close>

definition zero_if_nan :: "npfloat \<Rightarrow> npfloat" where
  "zero_if_nan v = (if isnan v then Fin 0 else v)"

text \<open>
  An optimizer that evaluates the residual function once, at the start, and hands the
  residual back in the place of the solution. It shows which residual function
  \<^verbatim>\<open>fit_lsq\<close> gives to \<^verbatim>\<open>least_squares\<close>.
\<close>

definition residual_probe :: least_squares where
  "residual_probe f sim p b =
     (case f sim p of Inl e \<Rightarrow> Inl e | Inr (sim', w, r) \<Rightarrow> Inr (sim', w, r, Fin 0))"

text \<open>The standard deviation that the likelihood functions use in the place of \<open>v\<close>.\<close>

definition one_for_zero :: "npfloat \<Rightarrow> npfloat" where
  "one_for_zero v = (if is_zero v then Fin 1 else v)"

text \<open>\<open>rect r c A\<close>: the array \<open>A\<close> has \<open>r\<close> rows and \<open>c\<close> columns.\<close>

definition rect :: "nat \<Rightarrow> nat \<Rightarrow> 'a list list \<Rightarrow> bool" where
  "rect r c A = (length A = r \<and> list_all (\<lambda>row. length row = c) A)"

text \<open>
  The statistic of Pearson over \<open>r\<close> rows and \<open>c\<close> columns, for observed values
  \<open>ob i j\<close> and expected values \<open>ex i j\<close>: the sum over all entries of
  \<open>(observed - expected)\<^sup>2 / expected\<close>. And the number that divides row \<open>i\<close> in
  \<^verbatim>\<open>test_chi2\<close>: the maximum of row \<open>i\<close> of the data when \<^verbatim>\<open>normalize\<close> is true.
\<close>

definition pearson_chi2 :: "nat \<Rightarrow> nat \<Rightarrow> (nat \<Rightarrow> nat \<Rightarrow> real) \<Rightarrow> (nat \<Rightarrow> nat \<Rightarrow> real) \<Rightarrow> real" where
  "pearson_chi2 r c ob ex = (\<Sum>i<r. \<Sum>j<c. (ob i j - ex i j)\<^sup>2 / ex i j)"

definition row_scale :: "bool \<Rightarrow> real list list \<Rightarrow> nat \<Rightarrow> real" where
  "row_scale nz obs i = (if nz then Max (set (obs ! ix (length obs) i)) else 1)"




text \<open>A simulator for the examples: every species keeps its initial value.\<close>

definition constant_simulator :: simulator where
  "constant_simulator =
     \<lparr> methods = [''matrix'', ''numerical''], default_method = ''matrix'', sim_params = [],
       sim_x0 = [], sim_t = [], sim_x = [],
       dynamics = (\<lambda>ps x0 t m. Inr (map (\<lambda>_. x0) t)) \<rparr>"

text \<open>
  An estimator for the examples: two kinetic parameters, the first fixed at \<open>2\<close>, and
  two initial conditions, the first fixed at \<open>1\<close>.
\<close>

definition example_estimator :: kinetic_estimation where
  "example_estimator = kinetic_estimation_init [(Fin 2, Fin 2), (Fin 0, Fin 5)]
      [(Fin 1, Fin 1), (Fin 0, Fin 9)] constant_simulator"

text \<open>
  The trajectory of the constant simulator from the initial conditions \<open>[1, 4]\<close> at two
  time points, and a generator of random numbers for the examples.
\<close>

definition example_trajectory :: "npfloat list list" where
  "example_trajectory = [[Fin 1, Fin 4], [Fin 1, Fin 4]]"

definition example_rng :: rng where
  "example_rng = \<lparr> lhsclassic = (\<lambda>n d. replicate n (replicate d (Fin (1 / 2)))),
                   rand = (\<lambda>k. Fin (1 / 2)) \<rparr>"

text \<open>
  The example estimator in the state after a fit that has returned the free parameters
  \<open>[3, 4]\<close>: the simulator holds the assembled parameters, the initial conditions
  \<open>[1, 4]\<close> and the trajectory at the time points \<open>0\<close> and \<open>1\<close>.
\<close>

definition example_fitted :: kinetic_estimation where
  "example_fitted =
     example_estimator\<lparr>simulator :=
         constant_simulator\<lparr>sim_params := [Fin 2, Fin 3], sim_t := [Fin 0, Fin 1],
           sim_x0 := [Fin 1, Fin 4], sim_x := example_trajectory\<rparr>,
       popt := Some [Fin 3, Fin 4], cost := Some (Fin 0)\<rparr>"

text \<open>
  An \<^verbatim>\<open>Estimation_DeterministicDegNosp\<close> with gamma free in \<open>[0, 1]\<close> and one initial
  condition free in \<open>[0, 10]\<close>, in the state after a fit that has returned
  \<open>gamma = 1/2\<close> and \<open>x0 = 8\<close>.
\<close>

definition example_degradation :: estimation_degradation where
  "example_degradation =
     (estimation_degradation_init [(Fin 0, Fin 1)] [(Fin 0, Fin 10)] constant_simulator)
       \<lparr>popt := Some [Fin (1 / 2), Fin 8], cost := Some (Fin 0)\<rparr>"

text \<open>
  Two instances of \<^verbatim>\<open>Estimation_MomentKinNosp\<close> with a stored fit result: in the first
  \<open>a\<close>, \<open>b\<close> and \<open>alpha_a\<close> are fixed and two parameters are free, in the second only
  \<open>a\<close> and \<open>b\<close> are fixed and three parameters are free.
\<close>

definition example_moment_two_free :: kinetic_estimation where
  "example_moment_two_free =
     (estimation_moment_kin_nosp_init (Scalar (Fin 1)) (Scalar (Fin 1)) (Scalar (Fin 1))
        (Range (Fin 0) (Fin 1)) (Range (Fin 0) (Fin 1)) constant_simulator)
       \<lparr>popt := Some [Fin (1 / 2), Fin (1 / 4)], cost := Some (Fin 0)\<rparr>"

definition example_moment_three_free :: kinetic_estimation where
  "example_moment_three_free =
     (estimation_moment_kin_nosp_init (Scalar (Fin 1)) (Scalar (Fin 1)) (Range (Fin 0) (Fin 1))
        (Range (Fin 0) (Fin 1)) (Range (Fin 0) (Fin 1)) constant_simulator)
       \<lparr>popt := Some [Fin (1 / 2), Fin (1 / 4), Fin (1 / 8)], cost := Some (Fin 0)\<rparr>"



section \<open>The parameter and bound manager: proofs\<close>

lemma feq_not_nan: "feq a b \<Longrightarrow> \<not> isnan a"
  by (cases a; cases b) auto

lemma fle_refl: "\<not> isnan a \<Longrightarrow> fle a a"
  by (cases a) auto

lemma isnan_fixed_value: "isnan (fixed_value r) = (\<not> is_fixed r)"
  by (auto simp: fixed_value_def is_fixed_def dest: feq_not_nan)

lemma scan_ranges_snd: "snd (scan_ranges prs i fx rs) = rs @ free_ranges prs"
  by (induction prs arbitrary: i fx rs) (auto simp: is_fixed_def free_ranges_def)

lemma scan_ranges_length: "length (fst (scan_ranges prs i fx rs)) = length fx"
  by (induction prs arbitrary: i fx rs) auto

lemma scan_ranges_nth:
  "j < length fx \<Longrightarrow> fst (scan_ranges prs i fx rs) ! j =
     (if i \<le> j \<and> j < i + length prs \<and> is_fixed (prs ! (j - i)) then fst (prs ! (j - i)) else fx ! j)"
proof (induction prs arbitrary: i fx rs)
  case Nil
  then show ?case by auto
next
  case (Cons r prs)
  consider "j < i" | "j = i" | "i < j" by linarith
  then show ?case
  proof cases
    case 1
    with Cons show ?thesis by auto
  next
    case 2
    with Cons show ?thesis by (auto simp: is_fixed_def)
  next
    case 3
    then have d: "j - i = Suc (j - Suc i)" by simp
    from 3 Cons show ?thesis
      unfolding d by (auto simp: is_fixed_def)
  qed
qed

lemma fixed_parameters_init:
  "fixed_parameters (kinetic_estimation_init pr xr sim) = map fixed_value pr @ map fixed_value xr"
proof (rule nth_equalityI)
  show "length (fixed_parameters (kinetic_estimation_init pr xr sim)) =
        length (map fixed_value pr @ map fixed_value xr)"
    by (simp add: kinetic_estimation_init_def Let_def split_beta scan_ranges_length)
next
  fix j assume "j < length (fixed_parameters (kinetic_estimation_init pr xr sim))"
  then have j: "j < length pr + length xr"
    by (simp add: kinetic_estimation_init_def Let_def split_beta scan_ranges_length)
  then show "fixed_parameters (kinetic_estimation_init pr xr sim) ! j =
        (map fixed_value pr @ map fixed_value xr) ! j"
    by (auto simp: kinetic_estimation_init_def Let_def split_beta scan_ranges_length
        scan_ranges_nth nth_append fixed_value_def)
qed

lemma ranges_init:
  "ranges (kinetic_estimation_init pr xr sim) = free_ranges pr @ free_ranges xr"
  by (simp add: kinetic_estimation_init_def Let_def split_beta scan_ranges_snd)

lemma counts_init:
  "n_tot_kin_params (kinetic_estimation_init pr xr sim) = length pr"
  "n_kin_params (kinetic_estimation_init pr xr sim) = length (free_ranges pr)"
  "n_params (kinetic_estimation_init pr xr sim) = length (free_ranges pr) + length (free_ranges xr)"
  by (simp_all add: kinetic_estimation_init_def Let_def split_beta scan_ranges_snd)

lemma is_fixed_not_nan: "is_fixed r \<Longrightarrow> \<not> isnan (fst r)"
  by (auto simp: is_fixed_def dest: feq_not_nan)

lemma count_nan_fixed: "length (filter isnan (map fixed_value prs)) = length (free_ranges prs)"
  by (induction prs) (auto simp: isnan_fixed_value free_ranges_def)

lemma length_fill_nan: "length (fill_nan p vs) = length p"
  by (induction p vs rule: fill_nan.induct) (auto split: list.splits)

lemma fill_nan_fixed_nth:
  "i < length prs \<Longrightarrow> is_fixed (prs ! i) \<Longrightarrow> fill_nan (map fixed_value prs) vs ! i = fst (prs ! i)"
proof (induction prs arbitrary: i vs)
  case Nil
  then show ?case by simp
next
  case (Cons r prs)
  show ?case
  proof (cases i)
    case 0
    with Cons.prems show ?thesis by (simp add: isnan_fixed_value) (simp add: fixed_value_def)
  next
    case (Suc k)
    with Cons show ?thesis by (auto simp: isnan_fixed_value split: list.splits)
  qed
qed

lemma broadcast_fixed_nth:
  "i < length prs \<Longrightarrow> is_fixed (prs ! i) \<Longrightarrow>
     map (\<lambda>x. if isnan x then v else x) (map fixed_value prs) ! i = fst (prs ! i)"
  by (simp add: fixed_value_def is_fixed_not_nan)

lemma assign_nan_fixed:
  assumes "assign_nan (map fixed_value prs) vals = Inr p"
  shows "length p = length prs \<and> (\<forall>i<length prs. is_fixed (prs ! i) \<longrightarrow> p ! i = fst (prs ! i))"
proof (cases "length vals = length (filter isnan (map fixed_value prs))")
  case True
  with assms have "p = fill_nan (map fixed_value prs) vals"
    unfolding assign_nan_def by simp
  then show ?thesis by (simp add: length_fill_nan fill_nan_fixed_nth)
next
  case False
  with assms have "p = map (\<lambda>x. if isnan x then hd vals else x) (map fixed_value prs)"
    unfolding assign_nan_def by (simp split: if_splits)
  then show ?thesis using broadcast_fixed_nth by simp
qed

lemma assign_nan_defined:
  "length vals = length (free_ranges prs) \<Longrightarrow>
     assign_nan (map fixed_value prs) vals = Inr (fill_nan (map fixed_value prs) vals)"
  unfolding assign_nan_def count_nan_fixed by simp

lemma fill_nan_mono:
  "length lo = length (free_ranges prs) \<Longrightarrow> list_all2 fle lo v \<Longrightarrow>
     list_all2 fle (fill_nan (map fixed_value prs) lo) (fill_nan (map fixed_value prs) v)"
proof (induction prs arbitrary: lo v)
  case Nil
  then show ?case by simp
next
  case (Cons r prs)
  show ?case
  proof (cases "is_fixed r")
    case True
    then have "fle (fst r) (fst r)"
      by (auto simp: is_fixed_def dest: feq_not_nan intro: fle_refl)
    with True Cons show ?thesis
      by (simp add: isnan_fixed_value free_ranges_def) (simp add: fixed_value_def)
  next
    case False
    with Cons.prems obtain a lo' b v' where "lo = a # lo'" "v = b # v'" "fle a b" "list_all2 fle lo' v'"
      "length lo' = length (free_ranges prs)"
      by (cases lo; cases v) (auto simp: free_ranges_def)
    with False Cons.IH[of lo' v'] show ?thesis
      by (simp add: isnan_fixed_value)
  qed
qed

lemma collect_map_Inr:
  "(\<And>x. x \<in> set xs \<Longrightarrow> g x = Inr (f x)) \<Longrightarrow> collect (map g xs) = Inr (map f xs)"
  by (induction xs) auto

lemma map_nth_upt: "map (\<lambda>i. f (xs ! i)) [0..<length xs] = map f xs"
  by (rule nth_equalityI) auto

lemma get_bound_0:
  assumes n: "n_params est = length (ranges est)"
  shows "get_bound est 0 = Inr (map fst (ranges est))"
proof -
  have "get_bound est 0 = Inr (map (\<lambda>i. fst (ranges est ! i)) [0..<length (ranges est)])"
    unfolding get_bound_def n
    by (rule collect_map_Inr) (simp add: range_i_def range_at_def)
  then show ?thesis by (simp only: map_nth_upt)
qed

lemma get_bound_1:
  assumes n: "n_params est = length (ranges est)"
  shows "get_bound est 1 = Inr (map snd (ranges est))"
proof -
  have "get_bound est 1 = Inr (map (\<lambda>i. snd (ranges est ! i)) [0..<length (ranges est)])"
    unfolding get_bound_def n
    by (rule collect_map_Inr) (simp add: range_i_def range_at_def)
  then show ?thesis by (simp only: map_nth_upt)
qed

lemma bind_Inr_iff:
  "((case m of Inl e \<Rightarrow> Inl e | Inr x \<Rightarrow> f x) = Inr y) = (\<exists>x. m = Inr x \<and> f x = Inr y)"
  by (cases m) auto

lemma f_lsq_partition:
  "f_lsq e1 params t x_data method nz = Inr (e2, w, r) \<Longrightarrow> partition_of e2 = partition_of e1"
  unfolding f_lsq_def
  by (auto simp: bind_Inr_iff Let_def partition_of_def)

lemma fit_lsq_partition:
  "fit_lsq e1 lsq g t x_data p0 n_p0 bounds sm method nz = Inr (e2, w, x, c)
     \<Longrightarrow> partition_of e2 = partition_of e1"
  unfolding fit_lsq_def
  by (auto simp: bind_Inr_iff Let_def partition_of_def)

lemma test_chi2_partition:
  "test_chi2 e1 cdf t xd species method nz = Inr (e2, res) \<Longrightarrow> partition_of e2 = partition_of e1"
  unfolding test_chi2_def
  by (auto simp: bind_Inr_iff Let_def partition_of_def)

lemma evolves_partition: "evolves est e \<Longrightarrow> partition_of e = partition_of est"
proof (induction rule: evolves.induct)
  case constructed
  show ?case by simp
next
  case after_f_lsq
  then show ?case using f_lsq_partition by metis
next
  case after_fit_lsq
  then show ?case using fit_lsq_partition by metis
next
  case after_test_chi2
  then show ?case using test_chi2_partition by metis
qed

lemma evolves_init:
  assumes "evolves (kinetic_estimation_init pr xr sim) est"
  shows "ranges est = free_ranges pr @ free_ranges xr"
    and "fixed_parameters est = map fixed_value pr @ map fixed_value xr"
    and "n_tot_kin_params est = length pr"
    and "n_kin_params est = length (free_ranges pr)"
    and "n_params est = length (free_ranges pr) + length (free_ranges xr)"
  using evolves_partition[OF assms]
  by (simp_all add: partition_of_def ranges_init fixed_parameters_init counts_init)

lemma assemble_kin_params_init:
  assumes "evolves (kinetic_estimation_init pr xr sim) est"
  shows "assemble_kin_params est v = assign_nan (map fixed_value pr) (take (length (free_ranges pr)) v)"
  by (simp add: assemble_kin_params_def evolves_init[OF assms])

lemma assemble_x0_init:
  assumes "evolves (kinetic_estimation_init pr xr sim) est"
  shows "assemble_x0 est v = assign_nan (map fixed_value xr) (drop (length (free_ranges pr)) v)"
  by (simp add: assemble_x0_def evolves_init[OF assms])

lemma example_fields:
  "ranges example_estimator = [(Fin 0, Fin 5), (Fin 0, Fin 9)]"
  "fixed_parameters example_estimator = [Fin 2, NaN, Fin 1, NaN]"
  "n_tot_kin_params example_estimator = 2"
  "n_kin_params example_estimator = 1"
  "n_params example_estimator = 2"
  "simulator example_estimator = constant_simulator"
  by (simp_all add: example_estimator_def kinetic_estimation_init_def)

text \<open>
  Claim C1. In every state that an estimator built by \<^verbatim>\<open>__init__\<close> goes through, the
  partition into fixed and free parameters is the one made at construction, and for every
  vector of free parameters of the length the optimizer works with, \<^verbatim>\<open>assemble_kin_params\<close>
  and \<^verbatim>\<open>assemble_x0\<close> return full vectors that hold, at the position of every range
  with \<^verbatim>\<open>low == high\<close>, exactly that value.
\<close>

theorem fixed_entries_kept:
  assumes ev: "evolves (kinetic_estimation_init param_ranges x0_ranges sim) est"
      and len: "length v = n_params est"
  shows "partition_of est = partition_of (kinetic_estimation_init param_ranges x0_ranges sim)
       \<and> (\<exists>p q. assemble_kin_params est v = Inr p \<and> assemble_x0 est v = Inr q
              \<and> length p = length param_ranges \<and> length q = length x0_ranges
              \<and> (\<forall>i<length param_ranges. is_fixed (param_ranges ! i) \<longrightarrow> p ! i = fst (param_ranges ! i))
              \<and> (\<forall>j<length x0_ranges. is_fixed (x0_ranges ! j) \<longrightarrow> q ! j = fst (x0_ranges ! j)))"
proof -
  let ?k = "length (free_ranges param_ranges)"
  from len have n: "length v = ?k + length (free_ranges x0_ranges)"
    by (simp add: evolves_init[OF ev])
  then have lk: "length (take ?k v) = ?k" and lx: "length (drop ?k v) = length (free_ranges x0_ranges)"
    by simp_all
  define p where "p = fill_nan (map fixed_value param_ranges) (take ?k v)"
  define q where "q = fill_nan (map fixed_value x0_ranges) (drop ?k v)"
  have kp: "assemble_kin_params est v = Inr p"
    unfolding p_def assemble_kin_params_init[OF ev] by (rule assign_nan_defined[OF lk])
  have x0: "assemble_x0 est v = Inr q"
    unfolding q_def assemble_x0_init[OF ev] by (rule assign_nan_defined[OF lx])
  from kp have "assign_nan (map fixed_value param_ranges) (take ?k v) = Inr p"
    by (simp add: assemble_kin_params_init[OF ev])
  note P = assign_nan_fixed[OF this]
  from x0 have "assign_nan (map fixed_value x0_ranges) (drop ?k v) = Inr q"
    by (simp add: assemble_x0_init[OF ev])
  note Q = assign_nan_fixed[OF this]
  have "assemble_kin_params est v = Inr p \<and> assemble_x0 est v = Inr q
              \<and> length p = length param_ranges \<and> length q = length x0_ranges
              \<and> (\<forall>i<length param_ranges. is_fixed (param_ranges ! i) \<longrightarrow> p ! i = fst (param_ranges ! i))
              \<and> (\<forall>j<length x0_ranges. is_fixed (x0_ranges ! j) \<longrightarrow> q ! j = fst (x0_ranges ! j))"
    using kp x0 P Q by simp
  then have "\<exists>p q. assemble_kin_params est v = Inr p \<and> assemble_x0 est v = Inr q
              \<and> length p = length param_ranges \<and> length q = length x0_ranges
              \<and> (\<forall>i<length param_ranges. is_fixed (param_ranges ! i) \<longrightarrow> p ! i = fst (param_ranges ! i))
              \<and> (\<forall>j<length x0_ranges. is_fixed (x0_ranges ! j) \<longrightarrow> q ! j = fst (x0_ranges ! j))"
    by (intro exI)
  with evolves_partition[OF ev] show ?thesis by (rule conjI)
qed

theorem fixed_entries_kept_witness:
  "evolves example_estimator example_estimator
   \<and> length [Fin 3, Fin 4] = n_params example_estimator
   \<and> is_fixed (Fin 2, Fin 2) \<and> is_fixed (Fin 1, Fin 1)
   \<and> assemble_kin_params example_estimator [Fin 3, Fin 4] = Inr [Fin 2, Fin 3]
   \<and> assemble_x0 example_estimator [Fin 3, Fin 4] = Inr [Fin 1, Fin 4]"
proof -
  have ev: "evolves (kinetic_estimation_init [(Fin 2, Fin 2), (Fin 0, Fin 5)]
      [(Fin 1, Fin 1), (Fin 0, Fin 9)] constant_simulator) example_estimator"
    unfolding example_estimator_def by (rule evolves.constructed)
  have len: "length [Fin 3, Fin 4] = n_params example_estimator"
    by (simp add: example_fields)
  from fixed_entries_kept[OF ev len] ev len show ?thesis
    by (simp add: example_fields assemble_kin_params_def assemble_x0_def assign_nan_def
        is_fixed_def example_estimator_def[symmetric])
qed

lemma within_bounds_lo: "within_bounds rs v \<Longrightarrow> list_all2 fle (map fst rs) v"
  unfolding within_bounds_def by (induction rule: list_all2_induct) auto

lemma within_bounds_hi: "within_bounds rs v \<Longrightarrow> list_all2 fle v (map snd rs)"
  unfolding within_bounds_def by (induction rule: list_all2_induct) auto

lemma within_bounds_take: "within_bounds (rs @ rs') v \<Longrightarrow> within_bounds rs (take (length rs) v)"
  unfolding within_bounds_def
  using list_all2_takeI[of _ "rs @ rs'" v "length rs"] by simp

text \<open>
  Claim C9, as amended. For every vector \<open>v\<close> of free parameters inside the bounds, the
  vector assembled from \<^verbatim>\<open>get_bound(0)\<close> is pointwise below or equal to the vector
  assembled from \<open>v\<close>, which is pointwise below or equal to the vector assembled from
  \<^verbatim>\<open>get_bound(1)\<close>.
\<close>

theorem bounds_enclose:
  assumes ev: "evolves (kinetic_estimation_init param_ranges x0_ranges sim) est"
      and wb: "within_bounds (ranges est) v"
  shows "\<exists>lb ub lo p hi. get_bound est 0 = Inr lb \<and> get_bound est 1 = Inr ub
           \<and> assemble_kin_params est lb = Inr lo \<and> assemble_kin_params est v = Inr p
           \<and> assemble_kin_params est ub = Inr hi
           \<and> list_all2 fle lo p \<and> list_all2 fle p hi"
proof -
  let ?fr = "free_ranges param_ranges"
  let ?k = "length ?fr"
  let ?fx = "map fixed_value param_ranges"
  note I = evolves_init[OF ev]
  have n: "n_params est = length (ranges est)" by (simp add: I)
  have lb: "get_bound est 0 = Inr (map fst (ranges est))" by (rule get_bound_0[OF n])
  have ub: "get_bound est 1 = Inr (map snd (ranges est))" by (rule get_bound_1[OF n])
  have tl: "take ?k (map fst (ranges est)) = map fst ?fr" by (simp add: I)
  have tu: "take ?k (map snd (ranges est)) = map snd ?fr" by (simp add: I)
  from wb have w: "within_bounds ?fr (take ?k v)"
    unfolding I by (rule within_bounds_take)
  then have lv: "length (take ?k v) = ?k"
    unfolding within_bounds_def by (metis list_all2_lengthD)
  have a1: "assemble_kin_params est (map fst (ranges est)) = Inr (fill_nan ?fx (map fst ?fr))"
    unfolding assemble_kin_params_init[OF ev] tl by (rule assign_nan_defined) simp
  have a2: "assemble_kin_params est v = Inr (fill_nan ?fx (take ?k v))"
    unfolding assemble_kin_params_init[OF ev] by (rule assign_nan_defined[OF lv])
  have a3: "assemble_kin_params est (map snd (ranges est)) = Inr (fill_nan ?fx (map snd ?fr))"
    unfolding assemble_kin_params_init[OF ev] tu by (rule assign_nan_defined) simp
  have m1: "list_all2 fle (fill_nan ?fx (map fst ?fr)) (fill_nan ?fx (take ?k v))"
    by (rule fill_nan_mono) (simp_all add: within_bounds_lo[OF w])
  have m2: "list_all2 fle (fill_nan ?fx (take ?k v)) (fill_nan ?fx (map snd ?fr))"
    by (rule fill_nan_mono[OF lv]) (simp add: within_bounds_hi[OF w])
  from lb ub a1 a2 a3 m1 m2 show ?thesis by (intro exI conjI)
qed

theorem bounds_enclose_witness:
  "evolves example_estimator example_estimator
   \<and> within_bounds (ranges example_estimator) [Fin 3, Fin 4]
   \<and> get_bound example_estimator 0 = Inr [Fin 0, Fin 0]
   \<and> get_bound example_estimator 1 = Inr [Fin 5, Fin 9]
   \<and> assemble_kin_params example_estimator [Fin 0, Fin 0] = Inr [Fin 2, Fin 0]
   \<and> assemble_kin_params example_estimator [Fin 3, Fin 4] = Inr [Fin 2, Fin 3]
   \<and> assemble_kin_params example_estimator [Fin 5, Fin 9] = Inr [Fin 2, Fin 5]
   \<and> list_all2 fle [Fin 2, Fin 0] [Fin 2, Fin 3] \<and> list_all2 fle [Fin 2, Fin 3] [Fin 2, Fin 5]"
proof -
  have ev: "evolves (kinetic_estimation_init [(Fin 2, Fin 2), (Fin 0, Fin 5)]
      [(Fin 1, Fin 1), (Fin 0, Fin 9)] constant_simulator) example_estimator"
    unfolding example_estimator_def by (rule evolves.constructed)
  have wb: "within_bounds (ranges example_estimator) [Fin 3, Fin 4]"
    by (simp add: example_fields within_bounds_def)
  have gb: "get_bound example_estimator 0 = Inr [Fin 0, Fin 0]"
    "get_bound example_estimator 1 = Inr [Fin 5, Fin 9]"
    using get_bound_0[of example_estimator] get_bound_1[of example_estimator]
    by (simp_all add: example_fields)
  from bounds_enclose[OF ev wb] ev wb gb show ?thesis
    by (simp add: example_fields assemble_kin_params_def assign_nan_def
        example_estimator_def[symmetric])
qed

text \<open>
  The claim C9 as it is written asks for the vector of \<^verbatim>\<open>get_bound(0)\<close> to be pointwise
  above the one of a sample. It is not: with the free range \<open>[0, 5]\<close> the lower bound gives
  \<open>0\<close> where the sample \<open>3\<close> gives \<open>3\<close>.
\<close>

theorem lower_bound_not_above_counterexample:
  "within_bounds (ranges example_estimator) [Fin 3, Fin 4]
   \<and> get_bound example_estimator 0 = Inr [Fin 0, Fin 0]
   \<and> assemble_kin_params example_estimator [Fin 0, Fin 0] = Inr [Fin 2, Fin 0]
   \<and> assemble_kin_params example_estimator [Fin 3, Fin 4] = Inr [Fin 2, Fin 3]
   \<and> \<not> list_all2 (\<lambda>lo p. fle p lo) [Fin 2, Fin 0] [Fin 2, Fin 3]"
  using get_bound_0[of example_estimator]
  by (simp add: example_fields within_bounds_def assemble_kin_params_def assign_nan_def)

section \<open>The guess of the decay rate\<close>

lemma fmax_Fin: "fmax (Fin a) (Fin b) = Fin (max a b)"
  by (simp add: fmax_def max_def)

lemma fmin_Fin: "fmin (Fin a) (Fin b) = Fin (min a b)"
  by (simp add: fmin_def min_def)

lemma np_clip_Fin: "np_clip (Fin a) (Fin lo) (Fin hi) = Fin (min (max a lo) hi)"
  by (simp add: np_clip_def fmax_Fin fmin_Fin)

lemma clip_in_range:
  "(lo::real) \<le> hi \<Longrightarrow> lo \<le> min (max u lo) hi \<and> min (max u lo) hi \<le> hi"
  by (auto simp: min_def max_def)

text \<open>
  Claim C6. For data whose first entry is finite and positive and whose last entry \<open>b\<close> is
  finite with \<open>b + 1e-6 > 0\<close>, and a time array whose last entry is finite and positive,
  \<^verbatim>\<open>guestimate_gamma\<close> returns \<open>clip(ln(x[0] / (x[-1] + 1e-6)) / t[-1], 1e-3, 1e3)\<close>, a
  finite number between \<open>1e-3\<close> and \<open>1e3\<close>.
\<close>

theorem guestimate_gamma_clipped:
  assumes "x_data \<noteq> []" and "time \<noteq> []"
      and "hd x_data = Fin a" and "last x_data = Fin b" and "last time = Fin c"
      and "0 < a" and "0 < b + 1 / 10 ^ 6" and "0 < c"
  shows "\<exists>g. guestimate_gamma x_data time = Inr (Fin g)
           \<and> g = min (max (ln (a / (b + 1 / 10 ^ 6)) / c) (1 / 10 ^ 3)) (10 ^ 3)
           \<and> 1 / 10 ^ 3 \<le> g \<and> g \<le> 10 ^ 3"
proof -
  from assms have q: "0 < a / (b + 1 / 10 ^ 6)" by simp
  from assms have nz: "b + 1 / 10 ^ 6 \<noteq> 0" "c \<noteq> 0" by simp_all
  have "guestimate_gamma x_data time =
      Inr (np_clip (Fin (ln (a / (b + 1 / 10 ^ 6)) / c)) (Fin (1 / 10 ^ 3)) (Fin (10 ^ 3)))"
    using assms(1-5) q nz by (simp add: guestimate_gamma_def)
  then have "guestimate_gamma x_data time =
      Inr (Fin (min (max (ln (a / (b + 1 / 10 ^ 6)) / c) (1 / 10 ^ 3)) (10 ^ 3)))"
    by (simp only: np_clip_Fin)
  moreover have "(1::real) / 10 ^ 3 \<le> 10 ^ 3" by simp
  note clip_in_range[OF this, of "ln (a / (b + 1 / 10 ^ 6)) / c"]
  ultimately show ?thesis by blast
qed

theorem guestimate_gamma_clipped_witness:
  "[Fin 8, Fin 4, Fin 2] \<noteq> [] \<and> [Fin 0, Fin 1, Fin 2] \<noteq> []
   \<and> hd [Fin 8, Fin 4, Fin 2] = Fin 8 \<and> last [Fin 8, Fin 4, Fin 2] = Fin 2
   \<and> last [Fin 0, Fin 1, Fin 2] = Fin 2 \<and> (0::real) < 8 \<and> (0::real) < 2 + 1 / 10 ^ 6 \<and> (0::real) < 2
   \<and> (\<exists>g. guestimate_gamma [Fin 8, Fin 4, Fin 2] [Fin 0, Fin 1, Fin 2] = Inr (Fin g)
         \<and> 1 / 10 ^ 3 \<le> g \<and> g \<le> 10 ^ 3)"
  using guestimate_gamma_clipped[of "[Fin 8, Fin 4, Fin 2]" "[Fin 0, Fin 1, Fin 2]" 8 2 2]
  by simp

section \<open>The accessors of the fitted parameters\<close>

text \<open>
  Claim C10, as amended. For every \<^verbatim>\<open>Estimation_MomentKinNosp\<close> with a stored fit
  result, \<^verbatim>\<open>get_alpha\<close> raises and returns no value: an IndexError when the stored vector
  has fewer than three entries (\<^verbatim>\<open>get_alpha_a\<close> reads \<^verbatim>\<open>popt[2]\<close>), and otherwise the
  AttributeError of the attribute access on the float that \<^verbatim>\<open>get_alpha_a\<close> returns.
\<close>

theorem get_alpha_nosp_raises:
  assumes "popt est = Some p"
  shows "get_alpha_nosp fbar est = Inl (if length p \<le> 2 then IndexError else AttributeError)"
  using assms by (simp add: get_alpha_nosp_def get_alpha_a_def popt_at_def)

theorem get_alpha_nosp_raises_witness:
  "popt example_moment_three_free = Some [Fin (1 / 2), Fin (1 / 4), Fin (1 / 8)]
   \<and> n_params example_moment_three_free = 3
   \<and> get_alpha_nosp (\<lambda>a i. Inr a) example_moment_three_free = Inl AttributeError"
  using get_alpha_nosp_raises[of example_moment_three_free "[Fin (1 / 2), Fin (1 / 4), Fin (1 / 8)]"
      "\<lambda>a i. Inr a"]
  by (simp add: example_moment_three_free_def estimation_moment_kin_nosp_init_def
      kinetic_estimation_init_def numeral_eq_Suc)

text \<open>
  The claim C10 as it is written has an attribute error for every stored fit result. With
  three of the five kinetic parameters fixed, the fit result has two entries and the error
  is an IndexError.
\<close>

theorem get_alpha_nosp_index_error_counterexample:
  "popt example_moment_two_free = Some [Fin (1 / 2), Fin (1 / 4)]
   \<and> n_params example_moment_two_free = 2
   \<and> get_alpha_nosp (\<lambda>a i. Inr a) example_moment_two_free = Inl IndexError
   \<and> get_alpha_nosp (\<lambda>a i. Inr a) example_moment_two_free \<noteq> Inl AttributeError"
  by (simp add: example_moment_two_free_def estimation_moment_kin_nosp_init_def
      kinetic_estimation_init_def numeral_eq_Suc get_alpha_nosp_def get_alpha_a_def popt_at_def)

lemma first_index_keys:
  "first_index [''alpha'', ''gamma''] ''gamma'' = Some 1"
  "first_index [''alpha'', ''gamma''] ''alpha'' = Some 0"
  by simp_all

lemma example_degradation_fields:
  "kin_param_keys example_degradation = [''alpha'', ''gamma'']"
  "popt example_degradation = Some [Fin (1 / 2), Fin 8]"
  "fixed_parameters example_degradation = [Fin 0, NaN, NaN]"
  "ranges example_degradation = [(Fin 0, Fin 1), (Fin 0, Fin 10)]"
  "n_tot_kin_params example_degradation = 2"
  "n_kin_params example_degradation = 1"
  "n_params example_degradation = 2"
  by (simp_all add: example_degradation_def estimation_degradation_init_def
      kinetic_estimation_init_def kinetic_estimation.defs estimation_degradation.defs)

text \<open>
  Claim C2 at a concrete estimator. \<^verbatim>\<open>Estimation_Degradation.__init__\<close> fixes alpha at
  zero, so the fit result is \<open>[gamma, x0]\<close> while the keys are \<open>[alpha, gamma]\<close>:
  \<^verbatim>\<open>get_param('gamma')\<close> reads \<^verbatim>\<open>popt[1]\<close>, the fitted initial condition \<open>8\<close>, and the
  half-life is \<open>ln 2 / 8\<close> instead of \<open>ln 2\<close> divided by the fitted gamma \<open>1/2\<close>.
\<close>

theorem half_life_reads_initial_condition:
  "estimation_deterministic_deg_nosp_initialize (Range (Fin 0) (Fin 1)) (X0_2d [(Fin 0, Fin 10)])
       constant_simulator
     = Inr (estimation_degradation_init [(Fin 0, Fin 1)] [(Fin 0, Fin 10)] constant_simulator)
   \<and> get_opt_kin_params example_degradation = Inr (Some [Fin 0, Fin (1 / 2)])
   \<and> get_opt_x0_params example_degradation = Inr (Some [Fin 8])
   \<and> fitted_value example_degradation ''gamma'' = Some (Fin (1 / 2))
   \<and> get_param example_degradation ''gamma'' = Inr (Fin 8)
   \<and> calc_half_life example_degradation ''gamma'' = Inr (Fin (ln 2 / 8))
   \<and> calc_half_life example_degradation ''gamma'' \<noteq> Inr (Fin (ln 2 / (1 / 2)))"
proof -
  have k: "get_opt_kin_params example_degradation = Inr (Some [Fin 0, Fin (1 / 2)])"
    by (simp add: get_opt_kin_params_def assemble_kin_params_def assign_nan_def
        example_degradation_fields)
  have x: "get_opt_x0_params example_degradation = Inr (Some [Fin 8])"
    by (simp add: get_opt_x0_params_def assemble_x0_def assign_nan_def
        example_degradation_fields)
  have g: "get_param example_degradation ''gamma'' = Inr (Fin 8)"
    by (simp add: get_param_def popt_at_def example_degradation_fields)
  have f: "fitted_value example_degradation ''gamma'' = Some (Fin (1 / 2))"
    by (simp add: fitted_value_def k example_degradation_fields)
  have h: "calc_half_life example_degradation ''gamma'' = Inr (Fin (ln 2 / 8))"
    by (simp add: calc_half_life_def g)
  have "ln (2::real) / 8 \<noteq> ln 2 / (1 / 2)"
  proof -
    have "0 < ln (2::real)" by simp
    then show ?thesis by simp
  qed
  with k x g f h show ?thesis
    by (simp add: estimation_deterministic_deg_nosp_initialize_def)
qed

section \<open>Broadcasting\<close>

lemma length_tabulate2: "length (tabulate2 r c g) = r"
  by (simp add: tabulate2_def)

lemma nth_tabulate2: "i < r \<Longrightarrow> tabulate2 r c g ! i = map (g i) [0 ..< c]"
  by (simp add: tabulate2_def)

lemma nth_nth_tabulate2: "i < r \<Longrightarrow> j < c \<Longrightarrow> tabulate2 r c g ! i ! j = g i j"
  by (simp add: tabulate2_def)

lemma tabulate2_cong:
  "(\<And>i j. i < r \<Longrightarrow> j < c \<Longrightarrow> g i j = g' i j) \<Longrightarrow> tabulate2 r c g = tabulate2 r c g'"
  by (simp add: tabulate2_def)

lemma shape_of_tabulate2: "shape_of (tabulate2 r c g) = replicate r c"
  by (simp add: shape_of_def tabulate2_def comp_def map_replicate_const)

lemma dims_tabulate2: "0 < r \<Longrightarrow> dims (tabulate2 r c g) = (r, c)"
proof -
  assume r: "0 < r"
  then obtain x xs where t: "tabulate2 r c g = x # xs"
    by (cases "tabulate2 r c g") (auto simp: tabulate2_def)
  have "x = tabulate2 r c g ! 0" using t by simp
  then have "length x = c" using r by (simp add: nth_tabulate2)
  moreover have "length (tabulate2 r c g) = r" by (rule length_tabulate2)
  ultimately show ?thesis unfolding dims_def t by simp
qed

lemma rect_tabulate2: "rect r c (tabulate2 r c g)"
  by (simp add: rect_def tabulate2_def list_all_iff)

lemma rect_as_tabulate2:
  assumes "rect r c A"
  shows "A = tabulate2 r c (\<lambda>i j. A ! i ! j)"
proof (rule nth_equalityI)
  show "length A = length (tabulate2 r c (\<lambda>i j. A ! i ! j))"
    using assms by (simp add: rect_def length_tabulate2)
next
  fix i assume "i < length A"
  then have i: "i < r" and l: "length (A ! i) = c"
    using assms by (auto simp: rect_def list_all_iff)
  show "A ! i = tabulate2 r c (\<lambda>i j. A ! i ! j) ! i"
    unfolding nth_tabulate2[OF i] using l by (intro nth_equalityI) auto
qed

lemma ix_less: "0 < a \<Longrightarrow> compat a c \<Longrightarrow> i < bdim a c \<Longrightarrow> ix a i < a"
  by (auto simp: ix_def bdim_def compat_def split: if_splits)

lemma ix_less': "0 < c \<Longrightarrow> compat a c \<Longrightarrow> i < bdim a c \<Longrightarrow> ix c i < c"
  by (auto simp: ix_def bdim_def compat_def split: if_splits)

lemma ix_same: "i < a \<Longrightarrow> ix a i = i"
  by (auto simp: ix_def)

lemma bdim_same: "bdim a a = a"
  by (simp add: bdim_def)

lemma compat_refl: "compat a a"
  by (simp add: compat_def)

lemma bview_tabulate2:
  "0 < r \<Longrightarrow> ix r i < r \<Longrightarrow> ix c j < c \<Longrightarrow> bview (tabulate2 r c g) i j = g (ix r i) (ix c j)"
  by (simp add: bview_def dims_tabulate2 nth_nth_tabulate2)

lemma map2_tabulate2:
  "map2 (map2 f) (tabulate2 r c g) (tabulate2 r c h) = tabulate2 r c (\<lambda>i j. f (g i j) (h i j))"
proof -
  have row: "\<And>i. map2 f (map (g i) [0 ..< c]) (map (h i) [0 ..< c]) = map (\<lambda>j. f (g i j) (h i j)) [0 ..< c]"
    by (intro nth_equalityI) auto
  show ?thesis
    unfolding tabulate2_def by (intro nth_equalityI) (auto simp: row)
qed

lemma elementwise_tabulate2:
  assumes pos: "0 < a" "0 < b" "0 < c" "0 < d"
      and cp: "compat a c" "compat b d"
  shows "elementwise f (tabulate2 a b g) (tabulate2 c d h)
           = Inr (tabulate2 (bdim a c) (bdim b d)
                    (\<lambda>i j. f (g (ix a i) (ix b j)) (h (ix c i) (ix d j))))"
proof (cases "shape_of (tabulate2 a b g) = shape_of (tabulate2 c d h)")
  case True
  then have "replicate a b = replicate c d" by (simp add: shape_of_tabulate2)
  with pos have e: "a = c" "b = d" by (auto simp: replicate_eq_replicate)
  have "elementwise f (tabulate2 a b g) (tabulate2 c d h)
      = Inr (tabulate2 a b (\<lambda>i j. f (g i j) (h i j)))"
    using True unfolding e by (simp add: elementwise_def map2_tabulate2)
  also have "tabulate2 a b (\<lambda>i j. f (g i j) (h i j))
      = tabulate2 (bdim a c) (bdim b d) (\<lambda>i j. f (g (ix a i) (ix b j)) (h (ix c i) (ix d j)))"
    unfolding e bdim_same by (rule tabulate2_cong) (simp add: ix_same)
  finally show ?thesis .
next
  case False
  have "tabulate2 (bdim a c) (bdim b d) (\<lambda>i j. f (bview (tabulate2 a b g) i j) (bview (tabulate2 c d h) i j))
      = tabulate2 (bdim a c) (bdim b d) (\<lambda>i j. f (g (ix a i) (ix b j)) (h (ix c i) (ix d j)))"
  proof (rule tabulate2_cong)
    fix i j assume i: "i < bdim a c" and j: "j < bdim b d"
    have "bview (tabulate2 a b g) i j = g (ix a i) (ix b j)"
      by (rule bview_tabulate2[OF pos(1) ix_less[OF pos(1) cp(1) i] ix_less[OF pos(2) cp(2) j]])
    moreover have "bview (tabulate2 c d h) i j = h (ix c i) (ix d j)"
      by (rule bview_tabulate2[OF pos(3) ix_less'[OF pos(3) cp(1) i] ix_less'[OF pos(4) cp(2) j]])
    ultimately show "f (bview (tabulate2 a b g) i j) (bview (tabulate2 c d h) i j)
        = f (g (ix a i) (ix b j)) (h (ix c i) (ix d j))" by simp
  qed
  with False cp show ?thesis
    by (simp add: elementwise_def dims_tabulate2 pos)
qed

lemma elementwise_incompatible:
  assumes pos: "0 < a" "0 < c"
      and cp: "\<not> (compat a c \<and> compat b d)"
  shows "elementwise f (tabulate2 a b g) (tabulate2 c d h) = Inl ValueError"
proof -
  have "shape_of (tabulate2 a b g) \<noteq> shape_of (tabulate2 c d h)"
  proof
    assume "shape_of (tabulate2 a b g) = shape_of (tabulate2 c d h)"
    then have "replicate a b = replicate c d" by (simp add: shape_of_tabulate2)
    with pos have "a = c" "b = d" by (auto simp: replicate_eq_replicate)
    with cp show False by (simp add: compat_def)
  qed
  with cp show ?thesis by (simp add: elementwise_def dims_tabulate2 pos)
qed

lemma map_map_tabulate2: "map (map f) (tabulate2 r c g) = tabulate2 r c (\<lambda>i j. f (g i j))"
  by (simp add: tabulate2_def)

lemma length_flatten_tabulate2: "length (flatten (tabulate2 r c g)) = r * c"
  by (simp add: flatten_def tabulate2_def length_concat comp_def sum_list_triv)

lemma nth_flatten_tabulate2:
  assumes "i < r" "j < c"
  shows "flatten (tabulate2 r c g) ! (i * c + j) = g i j"
  using assms
proof (induction r arbitrary: i g)
  case 0
  then show ?case by simp
next
  case (Suc r)
  have t: "tabulate2 (Suc r) c g = map (g 0) [0 ..< c] # tabulate2 r c (\<lambda>i. g (Suc i))"
    unfolding tabulate2_def by (simp add: upt_rec[of 0 "Suc r"] map_Suc_upt[symmetric] del: upt_Suc)
  show ?case
  proof (cases i)
    case 0
    with Suc.prems show ?thesis by (simp add: t flatten_def nth_append)
  next
    case (Suc i')
    with Suc.prems have "i' < r" by simp
    then have "flatten (tabulate2 r c (\<lambda>i. g (Suc i))) ! (i' * c + j) = g (Suc i') j"
      using Suc.IH[of i' "\<lambda>i. g (Suc i)"] Suc.prems by simp
    moreover have "Suc i' * c + j = length (map (g 0) [0 ..< c]) + (i' * c + j)" by simp
    ultimately show ?thesis
      unfolding t flatten_def concat.simps Suc
      by (simp only: nth_append_length_plus flatten_def)
  qed
qed

lemma transpose_tabulate2:
  assumes "0 < r"
  shows "transpose (tabulate2 r c g) = tabulate2 c r (\<lambda>i j. g j i)"
proof -
  have "transpose (tabulate2 r c g)
      = map (\<lambda>i. map (\<lambda>j. tabulate2 r c g ! j ! i) [0 ..< length (tabulate2 r c g)]) [0 ..< c]"
    by (rule transpose_rectangle) (use assms in \<open>auto simp: tabulate2_def\<close>)
  also have "\<dots> = tabulate2 c r (\<lambda>i j. tabulate2 r c g ! j ! i)"
    by (simp only: length_tabulate2 tabulate2_def[of c r])
  also have "\<dots> = tabulate2 c r (\<lambda>i j. g j i)"
    by (rule tabulate2_cong) (simp add: nth_nth_tabulate2)
  finally show ?thesis .
qed

section \<open>The residual function\<close>

lemma nan_to_zero_map: "nan_to_zero A = map (map zero_if_nan) A"
  by (simp add: nan_to_zero_def zero_if_nan_def)

lemma f_lsq_unfolded:
  assumes kp: "assemble_kin_params est params = Inr kp"
      and x0: "assemble_x0 est params = Inr x0"
      and cm: "choose_method (simulator est) method = Inr (w, m)"
      and dyn: "dynamics (simulator est) kp x0 t m = Inr X"
  shows "f_lsq est params t x_data method True =
     (case elementwise fsub (nan_to_zero (normalize_data (transpose X))) x_data of
        Inl e \<Rightarrow> Inl e
      | Inr d \<Rightarrow> Inr (est\<lparr>simulator := (simulator est)\<lparr>sim_params := kp, sim_t := t,
                                   sim_x0 := x0, sim_x := X\<rparr>\<rparr>, w, flatten d))"
proof -
  have i: "integrate (set_params (simulator est) kp) t (Some x0) (Some m)
      = Inr ((simulator est)\<lparr>sim_params := kp, sim_t := t, sim_x0 := x0, sim_x := X\<rparr>)"
    using dyn by (simp add: integrate_def set_params_def Let_def)
  show ?thesis
    unfolding f_lsq_def cm kp x0
    by (simp add: i extract_data_from_simulator_def Let_def)
qed

lemma prediction_tabulate2:
  assumes "rect k ms X" "0 < k"
  shows "nan_to_zero (normalize_data (transpose X))
           = tabulate2 ms k (\<lambda>i j. zero_if_nan (log1 (X ! j ! i)))"
proof -
  have "transpose X = transpose (tabulate2 k ms (\<lambda>i j. X ! i ! j))"
    using rect_as_tabulate2[OF assms(1)] by simp
  also have "\<dots> = tabulate2 ms k (\<lambda>i j. X ! j ! i)"
    by (rule transpose_tabulate2[OF assms(2)])
  finally show ?thesis
    by (simp add: nan_to_zero_map normalize_data_def map_map_tabulate2 del: map_map)
qed

lemma residual_tabulate2:
  assumes X: "rect k ms X" "0 < k" "0 < ms"
      and D: "rect c d D" "0 < c" "0 < d"
      and cp: "compat ms c" "compat k d"
  shows "elementwise fsub (nan_to_zero (normalize_data (transpose X))) D
           = Inr (tabulate2 (bdim ms c) (bdim k d)
                    (\<lambda>i j. fsub (zero_if_nan (log1 (X ! ix k j ! ix ms i))) (D ! ix c i ! ix d j)))"
proof -
  have "elementwise fsub (nan_to_zero (normalize_data (transpose X))) D
      = elementwise fsub (tabulate2 ms k (\<lambda>i j. zero_if_nan (log1 (X ! j ! i))))
          (tabulate2 c d (\<lambda>i j. D ! i ! j))"
    using prediction_tabulate2[OF X(1,2)] rect_as_tabulate2[OF D(1)] by simp
  also have "\<dots> = Inr (tabulate2 (bdim ms c) (bdim k d)
                    (\<lambda>i j. fsub (zero_if_nan (log1 (X ! ix k j ! ix ms i))) (D ! ix c i ! ix d j)))"
    by (rule elementwise_tabulate2[OF X(3) X(2) D(2) D(3) cp])
  finally show ?thesis .
qed

lemma np_argmin_single: "np_argmin [c] = Inr 0"
  by (simp add: np_argmin_def)

lemma run_starts_probe_single:
  "run_starts residual_probe (fit_residual est t x_data method nz) (simulator est) [p] b [0] =
     (case f_lsq est p t (fit_target x_data nz) method nz of Inl e \<Rightarrow> Inl e
      | Inr (est1, w, r) \<Rightarrow> Inr (simulator est1, w, [(r, Fin 0)]))"
  by (simp add: residual_probe_def fit_residual_def split: sum.splits prod.splits)

lemma fit_lsq_probe_eq:
  "fit_lsq est residual_probe g t x_data (P0_1d p) n_p0 (Some b) sm method nz =
     (case f_lsq est p t (fit_target x_data nz) method nz of Inl e \<Rightarrow> Inl e
      | Inr (est1, w, r) \<Rightarrow>
          Inr (est\<lparr>simulator := simulator est1, popt := Some r, cost := Some (Fin 0)\<rparr>,
               w, r, Fin 0))"
proof -
  have rs: "run_starts residual_probe (fit_residual est t x_data method nz) (simulator est)
              [p] b [0]
        = (case f_lsq est p t (fit_target x_data nz) method nz of Inl e \<Rightarrow> Inl e
           | Inr (est1, w, r) \<Rightarrow> Inr (simulator est1, w, [(r, Fin 0)]))"
    by (rule run_starts_probe_single)
  show ?thesis
    unfolding fit_lsq_def
    by (simp add: rs np_argmin_single del: run_starts.simps split: sum.splits prod.splits)
qed

lemma rect_normalize_data: "rect c d D \<Longrightarrow> rect c d (normalize_data D)"
  by (simp add: rect_def normalize_data_def list_all_iff)

lemma nth_normalize_data:
  "rect c d D \<Longrightarrow> i < c \<Longrightarrow> j < d \<Longrightarrow> normalize_data D ! i ! j = log1 (D ! i ! j)"
  by (simp add: rect_def normalize_data_def list_all_iff)

text \<open>
  Claim C4. With \<^verbatim>\<open>normalize\<close> true, \<^verbatim>\<open>f_lsq\<close> assembles the kinetic parameters and the
  initial conditions from the free vector, stores them in the simulator and integrates it
  at \<open>t\<close>; let \<open>X\<close> be the trajectory that the simulator computes from them, with
  \<open>k\<close> time points and \<open>ms\<close> species. \<^verbatim>\<open>f_lsq\<close> returns the flat array of the
  prediction minus the data it is given, as numpy broadcasts the two: the prediction for
  species \<open>i\<close> and time point \<open>j\<close> is \<open>log(X[j][i] + 1)\<close>, with \<open>0\<close> in the place of
  NaN. The residual function that \<^verbatim>\<open>fit_lsq\<close> hands to the optimizer subtracts
  \<open>log(x_data + 1)\<close>: the data are transformed as the trajectory is.
\<close>

theorem residual_is_normalized_difference:
  assumes kp: "assemble_kin_params est params = Inr kp"
      and x0: "assemble_x0 est params = Inr x0"
      and cm: "choose_method (simulator est) method = Inr (w, m)"
      and dyn: "dynamics (simulator est) kp x0 t m = Inr X"
      and X: "rect k ms X" "0 < k" "0 < ms"
      and D: "rect c d x_data" "0 < c" "0 < d"
      and cp: "compat ms c" "compat k d"
      and i: "i < bdim ms c" and j: "j < bdim k d"
  shows "\<exists>r r'.
           f_lsq est params t x_data method True
             = Inr (est\<lparr>simulator := (simulator est)\<lparr>sim_params := kp, sim_t := t,
                                        sim_x0 := x0, sim_x := X\<rparr>\<rparr>, w, r)
         \<and> fit_lsq est residual_probe g t x_data (P0_1d params) n_starts (Some b) sm method True
             = Inr (est\<lparr>simulator := (simulator est)\<lparr>sim_params := kp, sim_t := t,
                                        sim_x0 := x0, sim_x := X\<rparr>,
                        popt := Some r', cost := Some (Fin 0)\<rparr>, w, r', Fin 0)
         \<and> length r = bdim ms c * bdim k d \<and> length r' = bdim ms c * bdim k d
         \<and> r ! (i * bdim k d + j)
             = fsub (zero_if_nan (log1 (X ! ix k j ! ix ms i))) (x_data ! ix c i ! ix d j)
         \<and> r' ! (i * bdim k d + j)
             = fsub (zero_if_nan (log1 (X ! ix k j ! ix ms i))) (log1 (x_data ! ix c i ! ix d j))"
proof -
  let ?sim = "(simulator est)\<lparr>sim_params := kp, sim_t := t, sim_x0 := x0, sim_x := X\<rparr>"
  let ?R = "bdim ms c" and ?C = "bdim k d"
  let ?g = "\<lambda>i j. fsub (zero_if_nan (log1 (X ! ix k j ! ix ms i))) (x_data ! ix c i ! ix d j)"
  let ?g' = "\<lambda>i j. fsub (zero_if_nan (log1 (X ! ix k j ! ix ms i)))
                       (normalize_data x_data ! ix c i ! ix d j)"
  define r where "r = flatten (tabulate2 ?R ?C ?g)"
  define r' where "r' = flatten (tabulate2 ?R ?C ?g')"
  have f: "f_lsq est params t x_data method True = Inr (est\<lparr>simulator := ?sim\<rparr>, w, r)"
    unfolding f_lsq_unfolded[OF kp x0 cm dyn] residual_tabulate2[OF X D cp] r_def by simp
  have f': "f_lsq est params t (normalize_data x_data) method True
      = Inr (est\<lparr>simulator := ?sim\<rparr>, w, r')"
    unfolding f_lsq_unfolded[OF kp x0 cm dyn]
      residual_tabulate2[OF X rect_normalize_data[OF D(1)] D(2,3) cp] r'_def by simp
  have fit: "fit_lsq est residual_probe g t x_data (P0_1d params) n_starts (Some b) sm method True
      = Inr (est\<lparr>simulator := ?sim, popt := Some r', cost := Some (Fin 0)\<rparr>, w, r', Fin 0)"
    unfolding fit_lsq_probe_eq by (simp add: fit_target_def f')
  have l: "length r = ?R * ?C" "length r' = ?R * ?C"
    unfolding r_def r'_def by (simp_all add: length_flatten_tabulate2)
  have e: "r ! (i * ?C + j) = ?g i j"
    unfolding r_def by (rule nth_flatten_tabulate2[OF i j])
  have "r' ! (i * ?C + j) = ?g' i j"
    unfolding r'_def by (rule nth_flatten_tabulate2[OF i j])
  moreover have "normalize_data x_data ! ix c i ! ix d j = log1 (x_data ! ix c i ! ix d j)"
    by (rule nth_normalize_data[OF D(1) ix_less'[OF D(2) cp(1) i] ix_less'[OF D(3) cp(2) j]])
  ultimately have e': "r' ! (i * ?C + j)
      = fsub (zero_if_nan (log1 (X ! ix k j ! ix ms i))) (log1 (x_data ! ix c i ! ix d j))"
    by simp
  from f fit l e e' show ?thesis by blast
qed

lemma example_assemble:
  "assemble_kin_params example_estimator [Fin 3, Fin 4] = Inr [Fin 2, Fin 3]"
  "assemble_x0 example_estimator [Fin 3, Fin 4] = Inr [Fin 1, Fin 4]"
  by (simp_all add: assemble_kin_params_def assemble_x0_def assign_nan_def example_fields)

lemma example_choose: "choose_method constant_simulator None = Inr ([], ''matrix'')"
  by (simp add: choose_method_def constant_simulator_def)

lemma example_dynamics:
  "dynamics constant_simulator [Fin 2, Fin 3] [Fin 1, Fin 4] [Fin 0, Fin 1] ''matrix''
     = Inr example_trajectory"
  by (simp add: constant_simulator_def example_trajectory_def)

lemma example_rect: "rect 2 2 example_trajectory"
  by (simp add: rect_def example_trajectory_def)

theorem residual_is_normalized_difference_witness:
  "assemble_kin_params example_estimator [Fin 3, Fin 4] = Inr [Fin 2, Fin 3]
   \<and> assemble_x0 example_estimator [Fin 3, Fin 4] = Inr [Fin 1, Fin 4]
   \<and> choose_method (simulator example_estimator) None = Inr ([], ''matrix'')
   \<and> dynamics (simulator example_estimator) [Fin 2, Fin 3] [Fin 1, Fin 4] [Fin 0, Fin 1] ''matrix''
       = Inr example_trajectory
   \<and> rect 2 2 example_trajectory \<and> rect 1 2 [[Fin 0, Fin 0]]
   \<and> compat 2 1 \<and> compat 2 2 \<and> (1::nat) < bdim 2 1 \<and> (0::nat) < bdim 2 2
   \<and> (\<exists>r r'.
         f_lsq example_estimator [Fin 3, Fin 4] [Fin 0, Fin 1] [[Fin 0, Fin 0]] None True
           = Inr (example_estimator\<lparr>simulator := (simulator example_estimator)
                     \<lparr>sim_params := [Fin 2, Fin 3], sim_t := [Fin 0, Fin 1],
                      sim_x0 := [Fin 1, Fin 4], sim_x := example_trajectory\<rparr>\<rparr>, [], r)
       \<and> fit_lsq example_estimator residual_probe example_rng [Fin 0, Fin 1] [[Fin 0, Fin 0]]
             (P0_1d [Fin 3, Fin 4]) 1 (Some ([Fin 0, Fin 0], [Fin 5, Fin 9])) ''lhs'' None True
           = Inr (example_estimator\<lparr>simulator := (simulator example_estimator)
                     \<lparr>sim_params := [Fin 2, Fin 3], sim_t := [Fin 0, Fin 1],
                      sim_x0 := [Fin 1, Fin 4], sim_x := example_trajectory\<rparr>,
                    popt := Some r', cost := Some (Fin 0)\<rparr>, [], r', Fin 0)
       \<and> length r = 4 \<and> length r' = 4
       \<and> r ! 2 = Fin (ln 5) \<and> r' ! 2 = Fin (ln 5))"
proof -
  have s: "simulator example_estimator = constant_simulator"
    by (simp add: example_fields)
  have h: "choose_method (simulator example_estimator) None = Inr ([], ''matrix'')"
    "dynamics (simulator example_estimator) [Fin 2, Fin 3] [Fin 1, Fin 4] [Fin 0, Fin 1] ''matrix''
       = Inr example_trajectory"
    unfolding s by (rule example_choose, rule example_dynamics)
  have d: "rect 1 2 [[Fin 0 :: npfloat, Fin 0]]" by (simp add: rect_def)
  have c: "compat 2 1" "compat 2 2" "(1::nat) < bdim 2 1" "(0::nat) < bdim 2 2"
    by (simp_all add: compat_def bdim_def)
  have v: "fsub (zero_if_nan (log1 (example_trajectory ! ix 2 0 ! ix 2 1)))
              ([[Fin 0, Fin 0]] ! ix 1 1 ! ix 2 0) = Fin (ln 5)"
    "fsub (zero_if_nan (log1 (example_trajectory ! ix 2 0 ! ix 2 1)))
              (log1 ([[Fin 0, Fin 0]] ! ix 1 1 ! ix 2 0)) = Fin (ln 5)"
    by (simp_all add: example_trajectory_def ix_def log1_def zero_if_nan_def fsub_def)
  have b: "bdim 2 1 = 2" "bdim 2 2 = 2" by (simp_all add: bdim_def)
  from residual_is_normalized_difference[where g = example_rng and n_starts = 1
        and b = "([Fin 0, Fin 0], [Fin 5, Fin 9])" and sm = "''lhs''",
      OF example_assemble h example_rect _ _ d _ _ c]
  have "\<exists>r r'.
         f_lsq example_estimator [Fin 3, Fin 4] [Fin 0, Fin 1] [[Fin 0, Fin 0]] None True
           = Inr (example_estimator\<lparr>simulator := (simulator example_estimator)
                     \<lparr>sim_params := [Fin 2, Fin 3], sim_t := [Fin 0, Fin 1],
                      sim_x0 := [Fin 1, Fin 4], sim_x := example_trajectory\<rparr>\<rparr>, [], r)
       \<and> fit_lsq example_estimator residual_probe example_rng [Fin 0, Fin 1] [[Fin 0, Fin 0]]
             (P0_1d [Fin 3, Fin 4]) 1 (Some ([Fin 0, Fin 0], [Fin 5, Fin 9])) ''lhs'' None True
           = Inr (example_estimator\<lparr>simulator := (simulator example_estimator)
                     \<lparr>sim_params := [Fin 2, Fin 3], sim_t := [Fin 0, Fin 1],
                      sim_x0 := [Fin 1, Fin 4], sim_x := example_trajectory\<rparr>,
                    popt := Some r', cost := Some (Fin 0)\<rparr>, [], r', Fin 0)
       \<and> length r = 4 \<and> length r' = 4
       \<and> r ! 2 = Fin (ln 5) \<and> r' ! 2 = Fin (ln 5)"
    unfolding v b by simp
  with example_assemble h example_rect d c show ?thesis by blast
qed

section \<open>Arrays of finite numbers\<close>

lemma foldl_fadd_Fin: "foldl fadd (Fin a) (map Fin xs) = Fin (a + sum_list xs)"
  by (induction xs arbitrary: a) (auto simp: add.assoc)

lemma np_sum_Fin: "np_sum (map Fin xs) = Fin (sum_list xs)"
  by (simp add: np_sum_def foldl_fadd_Fin)

















section \<open>The Gaussian likelihood\<close>


lemma not_zero_one_for_zero: "\<not> is_zero (one_for_zero v)"
  by (simp add: one_for_zero_def is_zero_def)

lemma no_zero_after: "\<not> list_ex (list_ex is_zero) (map (map one_for_zero) S)"
  by (simp add: list_ex_iff not_zero_one_for_zero)



















section \<open>The chi-square test: proofs\<close>

lemma collect_Inr_list: "collect (map Inr xs) = Inr xs"
  by (induction xs) auto

lemma foldl_fmax_Fin: "foldl fmax (Fin a) (map Fin xs) = Fin (Max (set (a # xs)))"
proof (induction xs arbitrary: a)
  case Nil
  show ?case by simp
next
  case (Cons x xs)
  have "Max (set (max a x # xs)) = Max (set (a # x # xs))"
    by (cases "xs = []") (auto simp: max.assoc)
  with Cons[of "max a x"] show ?case by (simp add: fmax_Fin)
qed

lemma row_max_Fin: "r \<noteq> [] \<Longrightarrow> row_max (map Fin r) = Inr (Fin (Max (set r)))"
  by (cases r) (simp_all add: row_max_def foldl_fmax_Fin)

lemma np_max_axis1_rect:
  assumes "rect c d obs" "0 < d"
  shows "np_max_axis1 (map (map Fin) obs) = Inr (map Fin (map (\<lambda>r. Max (set r)) obs))"
proof -
  have "map row_max (map (map Fin) obs) = map Inr (map Fin (map (\<lambda>r. Max (set r)) obs))"
    using assms by (auto simp: rect_def list_all_iff row_max_Fin)
  then show ?thesis
    unfolding np_max_axis1_def by (simp only: collect_Inr_list)
qed

lemma div_rows_tabulate2:
  assumes A: "rect a b A" "0 < a"
      and s: "length s = c" "0 < c"
      and cp: "compat a c"
      and nz: "\<And>i. i < c \<Longrightarrow> s ! i \<noteq> 0"
  shows "div_rows (map (map Fin) A) (map Fin s)
           = Inr (tabulate2 (bdim a c) b (\<lambda>i j. Fin (A ! ix a i ! j / s ! ix c i)))"
proof -
  have la: "length A = a" using A(1) by (simp add: rect_def)
  have row: "map (\<lambda>v. fdiv v (map Fin s ! ix c i)) (map (map Fin) A ! ix a i)
      = map (\<lambda>j. Fin (A ! ix a i ! j / s ! ix c i)) [0 ..< b]" if i: "i < bdim a c" for i
  proof -
    have ia: "ix a i < a" by (rule ix_less[OF A(2) cp i])
    have ic: "ix c i < c" by (rule ix_less'[OF s(2) cp i])
    have lr: "length (A ! ix a i) = b"
      using A(1) ia by (simp add: rect_def list_all_iff)
    have z: "s ! ix c i \<noteq> 0" by (rule nz[OF ic])
    show ?thesis
      using ia ic lr z s(1) la by (intro nth_equalityI) auto
  qed
  have "div_rows (map (map Fin) A) (map Fin s)
      = Inr (map (\<lambda>i. map (\<lambda>v. fdiv v (map Fin s ! ix c i)) (map (map Fin) A ! ix a i))
               [0 ..< bdim a c])"
    using cp by (simp add: div_rows_def la s(1))
  also have "map (\<lambda>i. map (\<lambda>v. fdiv v (map Fin s ! ix c i)) (map (map Fin) A ! ix a i))
               [0 ..< bdim a c]
      = tabulate2 (bdim a c) b (\<lambda>i j. Fin (A ! ix a i ! j / s ! ix c i))"
    unfolding tabulate2_def by (rule map_cong[OF refl]) (simp add: row)
  finally show ?thesis .
qed

lemma sum_list_concat_rows: "sum_list (concat xss) = sum_list (map sum_list (xss :: real list list))"
  by (induction xss) auto

lemma np_sum_flatten_tabulate2:
  "np_sum (flatten (tabulate2 r c (\<lambda>i j. Fin (h i j)))) = Fin (\<Sum>i<r. \<Sum>j<c. h i j)"
proof -
  have "flatten (tabulate2 r c (\<lambda>i j. Fin (h i j)))
      = map Fin (concat (map (\<lambda>i. map (h i) [0 ..< c]) [0 ..< r]))"
    by (simp add: flatten_def tabulate2_def map_concat comp_def)
  then have "np_sum (flatten (tabulate2 r c (\<lambda>i j. Fin (h i j))))
      = Fin (sum_list (concat (map (\<lambda>i. map (h i) [0 ..< c]) [0 ..< r])))"
    by (simp only: np_sum_Fin)
  also have "sum_list (concat (map (\<lambda>i. map (h i) [0 ..< c]) [0 ..< r]))
      = (\<Sum>i<r. \<Sum>j<c. h i j)"
    by (simp add: sum_list_concat_rows comp_def interv_sum_list_conv_sum_set_nat lessThan_atLeast0)
  finally show ?thesis .
qed

lemma bdim_comm: "compat a c \<Longrightarrow> bdim c a = bdim a c"
  by (auto simp: bdim_def compat_def)

lemma compat_sym: "compat a c \<Longrightarrow> compat c a"
  by (auto simp: compat_def)

lemma compat_bdim: "compat a c \<Longrightarrow> compat (bdim a c) c" "compat a c \<Longrightarrow> compat (bdim a c) a"
  by (auto simp: bdim_def compat_def)

lemma bdim_absorb: "compat a c \<Longrightarrow> bdim (bdim a c) c = bdim a c"
  "compat a c \<Longrightarrow> bdim (bdim a c) a = bdim a c"
  by (auto simp: bdim_def compat_def)

lemma bdim_pos: "0 < a \<Longrightarrow> 0 < c \<Longrightarrow> 0 < bdim a c"
  by (simp add: bdim_def)

lemma ix_bdim: "i < bdim a c \<Longrightarrow> ix (bdim a c) i = i"
  by (rule ix_same)

text \<open>
  The sum of \<^verbatim>\<open>test_chi2\<close> on two finite arrays that broadcast, the array of expected
  values without a zero.
\<close>

lemma chi2_sum_tabulate2:
  assumes pos: "0 < c" "0 < d" "0 < a" "0 < b"
      and cp: "compat c a" "compat d b"
      and nz: "\<And>i j. i < a \<Longrightarrow> j < b \<Longrightarrow> e i j \<noteq> 0"
  shows "chi2_sum (tabulate2 c d (\<lambda>i j. Fin (ob i j))) (tabulate2 a b (\<lambda>i j. Fin (e i j)))
           = Inr (Fin (pearson_chi2 (bdim c a) (bdim d b)
                         (\<lambda>i j. ob (ix c i) (ix d j)) (\<lambda>i j. e (ix a i) (ix b j))))"
proof -
  let ?R = "bdim c a" and ?C = "bdim d b"
  have d1: "elementwise fsub (tabulate2 c d (\<lambda>i j. Fin (ob i j))) (tabulate2 a b (\<lambda>i j. Fin (e i j)))
      = Inr (tabulate2 ?R ?C (\<lambda>i j. fsub (Fin (ob (ix c i) (ix d j))) (Fin (e (ix a i) (ix b j)))))"
    by (rule elementwise_tabulate2[OF pos(1,2,3,4) cp])
  have sq: "map (map (\<lambda>v. fmul v v))
        (tabulate2 ?R ?C (\<lambda>i j. fsub (Fin (ob (ix c i) (ix d j))) (Fin (e (ix a i) (ix b j)))))
      = tabulate2 ?R ?C (\<lambda>i j. Fin ((ob (ix c i) (ix d j) - e (ix a i) (ix b j))\<^sup>2))"
    unfolding map_map_tabulate2 by (rule tabulate2_cong) (simp add: fsub_def power2_eq_square)
  have d2: "elementwise fdiv
        (tabulate2 ?R ?C (\<lambda>i j. Fin ((ob (ix c i) (ix d j) - e (ix a i) (ix b j))\<^sup>2)))
        (tabulate2 a b (\<lambda>i j. Fin (e i j)))
      = Inr (tabulate2 (bdim ?R a) (bdim ?C b)
          (\<lambda>i j. fdiv (Fin ((ob (ix c (ix ?R i)) (ix d (ix ?C j))
                                - e (ix a (ix ?R i)) (ix b (ix ?C j)))\<^sup>2))
                       (Fin (e (ix a i) (ix b j)))))"
    by (rule elementwise_tabulate2[OF bdim_pos[OF pos(1,3)] bdim_pos[OF pos(2,4)] pos(3,4)
          compat_bdim(1)[OF cp(1)] compat_bdim(1)[OF cp(2)]])
  have d3: "tabulate2 (bdim ?R a) (bdim ?C b)
          (\<lambda>i j. fdiv (Fin ((ob (ix c (ix ?R i)) (ix d (ix ?C j))
                                - e (ix a (ix ?R i)) (ix b (ix ?C j)))\<^sup>2))
                       (Fin (e (ix a i) (ix b j))))
      = tabulate2 ?R ?C
          (\<lambda>i j. Fin ((ob (ix c i) (ix d j) - e (ix a i) (ix b j))\<^sup>2 / e (ix a i) (ix b j)))"
    unfolding bdim_absorb(1)[OF cp(1)] bdim_absorb(1)[OF cp(2)]
  proof (rule tabulate2_cong)
    fix i j assume i: "i < ?R" and j: "j < ?C"
    have "ix a i < a" by (rule ix_less'[OF pos(3) cp(1) i])
    moreover have "ix b j < b" by (rule ix_less'[OF pos(4) cp(2) j])
    ultimately have "e (ix a i) (ix b j) \<noteq> 0" by (rule nz)
    then show "fdiv (Fin ((ob (ix c (ix ?R i)) (ix d (ix ?C j))
                                - e (ix a (ix ?R i)) (ix b (ix ?C j)))\<^sup>2))
                       (Fin (e (ix a i) (ix b j)))
        = Fin ((ob (ix c i) (ix d j) - e (ix a i) (ix b j))\<^sup>2 / e (ix a i) (ix b j))"
      by (simp add: ix_bdim[OF i] ix_bdim[OF j])
  qed
  show ?thesis
    unfolding chi2_sum_def d1 sum.case sq d2 d3 np_sum_flatten_tabulate2 pearson_chi2_def ..
qed

lemma pearson_chi2_cong:
  assumes "\<And>i j. i < r \<Longrightarrow> j < c \<Longrightarrow> f i j = f' i j"
      and "\<And>i j. i < r \<Longrightarrow> j < c \<Longrightarrow> g i j = g' i j"
  shows "pearson_chi2 r c f g = pearson_chi2 r c f' g'"
  unfolding pearson_chi2_def using assms by (intro sum.cong refl) simp

lemma ix_ix: "ix n (ix n i) = ix n i"
  by (simp add: ix_def)

lemma ix_ix_bdim: "ix a (ix (bdim a c) i) = ix a i" "ix c (ix (bdim a c) i) = ix c i"
  by (auto simp: ix_def bdim_def)

lemma dims_rect: "rect r c A \<Longrightarrow> 0 < r \<Longrightarrow> dims A = (r, c)"
  by (cases A) (auto simp: rect_def dims_def)

lemma rect_Fin_tabulate2:
  assumes "rect r c A"
  shows "map (map Fin) A = tabulate2 r c (\<lambda>i j. Fin (A ! i ! j))"
proof -
  have "map (map Fin) A = map (map Fin) (tabulate2 r c (\<lambda>i j. A ! i ! j))"
    using rect_as_tabulate2[OF assms] by simp
  then show ?thesis by (simp only: map_map_tabulate2)
qed

lemma rect_entry_nonzero:
  assumes "rect r c A" "\<forall>row \<in> set A. \<forall>v \<in> set row. v \<noteq> (0::real)" "i < r" "j < c"
  shows "A ! i ! j \<noteq> 0"
proof -
  have "A ! i \<in> set A" using assms(1,3) by (simp add: rect_def)
  moreover have "length (A ! i) = c" using assms(1,3) by (simp add: rect_def list_all_iff)
  then have "A ! i ! j \<in> set (A ! i)" using assms(4) by simp
  ultimately show ?thesis using assms(2) by blast
qed

text \<open>The two arrays that \<^verbatim>\<open>test_chi2\<close> compares, on finite arrays that broadcast.\<close>

lemma rescale_tabulate2:
  assumes ro: "rect c d obs" "0 < c" "0 < d"
      and re: "rect a b ex" "0 < a"
      and cp: "compat c a"
      and mx: "\<forall>row \<in> set obs. Max (set row) \<noteq> 0"
  shows "np_max_axis1 (map (map Fin) obs) = Inr (map Fin (map (\<lambda>r. Max (set r)) obs))"
    and "div_rows (map (map Fin) obs) (map Fin (map (\<lambda>r. Max (set r)) obs))
           = Inr (tabulate2 c d (\<lambda>i j. Fin (obs ! i ! j / Max (set (obs ! i)))))"
    and "div_rows (map (map Fin) ex) (map Fin (map (\<lambda>r. Max (set r)) obs))
           = Inr (tabulate2 (bdim a c) b
                    (\<lambda>i j. Fin (ex ! ix a i ! j / Max (set (obs ! ix c i)))))"
proof -
  let ?s = "map (\<lambda>r. Max (set r)) obs"
  have lo: "length obs = c" using ro(1) by (simp add: rect_def)
  have ls: "length ?s = c" by (simp add: lo)
  have sn: "?s ! i = Max (set (obs ! i))" if "i < c" for i using that lo by simp
  have nz: "?s ! i \<noteq> 0" if "i < c" for i
    using that lo mx by (simp add: sn)
  show "np_max_axis1 (map (map Fin) obs) = Inr (map Fin ?s)"
    by (rule np_max_axis1_rect[OF ro(1,3)])
  have "div_rows (map (map Fin) obs) (map Fin ?s)
      = Inr (tabulate2 (bdim c c) d (\<lambda>i j. Fin (obs ! ix c i ! j / ?s ! ix c i)))"
    by (rule div_rows_tabulate2[OF ro(1,2) ls ro(2) compat_refl nz])
  also have "tabulate2 (bdim c c) d (\<lambda>i j. Fin (obs ! ix c i ! j / ?s ! ix c i))
      = tabulate2 c d (\<lambda>i j. Fin (obs ! i ! j / Max (set (obs ! i))))"
    unfolding bdim_same by (rule tabulate2_cong) (simp add: ix_same sn)
  finally show "div_rows (map (map Fin) obs) (map Fin ?s)
      = Inr (tabulate2 c d (\<lambda>i j. Fin (obs ! i ! j / Max (set (obs ! i)))))" .
  have "div_rows (map (map Fin) ex) (map Fin ?s)
      = Inr (tabulate2 (bdim a c) b (\<lambda>i j. Fin (ex ! ix a i ! j / ?s ! ix c i)))"
    by (rule div_rows_tabulate2[OF re(1,2) ls ro(2) compat_sym[OF cp] nz])
  also have "tabulate2 (bdim a c) b (\<lambda>i j. Fin (ex ! ix a i ! j / ?s ! ix c i))
      = tabulate2 (bdim a c) b (\<lambda>i j. Fin (ex ! ix a i ! j / Max (set (obs ! ix c i))))"
  proof (rule tabulate2_cong)
    fix i j assume i: "i < bdim a c"
    have "ix c i < c" by (rule ix_less'[OF ro(2) compat_sym[OF cp] i])
    then show "Fin (ex ! ix a i ! j / ?s ! ix c i) = Fin (ex ! ix a i ! j / Max (set (obs ! ix c i)))"
      by (simp only: sn)
  qed
  finally show "div_rows (map (map Fin) ex) (map Fin ?s)
      = Inr (tabulate2 (bdim a c) b (\<lambda>i j. Fin (ex ! ix a i ! j / Max (set (obs ! ix c i)))))" .
qed

lemma normalized_chi2:
  assumes ro: "rect c d obs" "0 < c" "0 < d"
      and re: "rect a b ex" "0 < a" "0 < b"
      and cp: "compat c a" "compat d b"
      and ex_nz: "\<forall>row \<in> set ex. \<forall>v \<in> set row. v \<noteq> 0"
      and sc_nz: "nz \<longrightarrow> (\<forall>row \<in> set obs. Max (set row) \<noteq> 0)"
  shows "(case (if nz then
                 (case np_max_axis1 (map (map Fin) obs) of Inl e \<Rightarrow> Inl e
                  | Inr scale \<Rightarrow>
                 (case div_rows (map (map Fin) obs) scale of Inl e \<Rightarrow> Inl e
                  | Inr dn \<Rightarrow>
                 (case div_rows (map (map Fin) ex) scale of Inl e \<Rightarrow> Inl e
                  | Inr mn \<Rightarrow> Inr (dn, mn))))
               else Inr (map (map Fin) obs, map (map Fin) ex)) of Inl e \<Rightarrow> Inl e
         | Inr (x_data_norm, x_model_norm) \<Rightarrow> chi2_sum x_data_norm x_model_norm)
       = Inr (Fin (pearson_chi2 (bdim c a) (bdim d b)
                     (\<lambda>i j. bview obs i j / row_scale nz obs i)
                     (\<lambda>i j. bview ex i j / row_scale nz obs i)))"
proof (cases nz)
  case False
  have "chi2_sum (map (map Fin) obs) (map (map Fin) ex)
      = Inr (Fin (pearson_chi2 (bdim c a) (bdim d b)
                     (\<lambda>i j. obs ! ix c i ! ix d j) (\<lambda>i j. ex ! ix a i ! ix b j)))"
    unfolding rect_Fin_tabulate2[OF ro(1)] rect_Fin_tabulate2[OF re(1)]
    by (rule chi2_sum_tabulate2[OF ro(2,3) re(2,3) cp]) (rule rect_entry_nonzero[OF re(1) ex_nz])
  then show ?thesis
    using False by (simp add: bview_def row_scale_def dims_rect[OF ro(1,2)] dims_rect[OF re(1,2)])
next
  case True
  with sc_nz have mx: "\<forall>row \<in> set obs. Max (set row) \<noteq> 0" by simp
  note rs = rescale_tabulate2[OF ro re(1,2) cp(1) mx]
  let ?a' = "bdim a c"
  have lo: "length obs = c" using ro(1) by (simp add: rect_def)
  have pa: "0 < ?a'" by (rule bdim_pos[OF re(2) ro(2)])
  have cp': "compat c ?a'" by (rule compat_sym[OF compat_bdim(1)[OF compat_sym[OF cp(1)]]])
  have ba: "bdim c ?a' = bdim c a"
    using cp(1) by (auto simp: bdim_def compat_def)
  have nz': "ex ! ix a i ! j / Max (set (obs ! ix c i)) \<noteq> 0" if i: "i < ?a'" and j: "j < b" for i j
  proof -
    have ia: "ix a i < a" by (rule ix_less[OF re(2) compat_sym[OF cp(1)] i])
    have ic: "ix c i < c" by (rule ix_less'[OF ro(2) compat_sym[OF cp(1)] i])
    have "ex ! ix a i ! j \<noteq> 0" by (rule rect_entry_nonzero[OF re(1) ex_nz ia j])
    moreover have "obs ! ix c i \<in> set obs" using ic lo by simp
    then have "Max (set (obs ! ix c i)) \<noteq> 0" using mx by blast
    ultimately show ?thesis by simp
  qed
  have "chi2_sum (tabulate2 c d (\<lambda>i j. Fin (obs ! i ! j / Max (set (obs ! i)))))
          (tabulate2 ?a' b (\<lambda>i j. Fin (ex ! ix a i ! j / Max (set (obs ! ix c i)))))
      = Inr (Fin (pearson_chi2 (bdim c ?a') (bdim d b)
           (\<lambda>i j. obs ! ix c i ! ix d j / Max (set (obs ! ix c i)))
           (\<lambda>i j. ex ! ix a (ix ?a' i) ! ix b j / Max (set (obs ! ix c (ix ?a' i))))))"
    by (rule chi2_sum_tabulate2[OF ro(2,3) pa re(3) cp' cp(2) nz'])
  then have "chi2_sum (tabulate2 c d (\<lambda>i j. Fin (obs ! i ! j / Max (set (obs ! i)))))
          (tabulate2 ?a' b (\<lambda>i j. Fin (ex ! ix a i ! j / Max (set (obs ! ix c i)))))
      = Inr (Fin (pearson_chi2 (bdim c a) (bdim d b)
           (\<lambda>i j. obs ! ix c i ! ix d j / Max (set (obs ! ix c i)))
           (\<lambda>i j. ex ! ix a i ! ix b j / Max (set (obs ! ix c i)))))"
    by (simp only: ba ix_ix_bdim)
  then have "chi2_sum (tabulate2 c d (\<lambda>i j. Fin (obs ! i ! j / Max (set (obs ! i)))))
          (tabulate2 ?a' b (\<lambda>i j. Fin (ex ! ix a i ! j / Max (set (obs ! ix c i)))))
      = Inr (Fin (pearson_chi2 (bdim c a) (bdim d b)
                     (\<lambda>i j. bview obs i j / row_scale nz obs i)
                     (\<lambda>i j. bview ex i j / row_scale nz obs i)))"
    using True
    by (simp add: bview_def row_scale_def dims_rect[OF ro(1,2)] dims_rect[OF re(1,2)] lo)
  then show ?thesis
    using True by (simp only: if_True rs sum.case prod.case)
qed

text \<open>
  Claim C3. On finite data \<open>obs\<close> with \<open>c\<close> rows and \<open>d\<close> columns (a flat array is one
  row), \<^verbatim>\<open>test_chi2\<close> integrates the simulator at \<open>t\<close> from its stored parameters and
  initial conditions; let \<open>ex\<close>, with \<open>a\<close> rows and \<open>b\<close> columns, be the transposed
  trajectory restricted to the species asked for, finite and without a zero entry. When the
  two shapes broadcast, and no row maximum of the data is zero if the rescaling is asked
  for, \<^verbatim>\<open>test_chi2\<close> stores the trajectory and returns \<open>(p, c2, df)\<close>: \<open>c2\<close> is the sum
  over all entries of \<open>(observed - expected)\<^sup>2 / expected\<close>, on the data and the prediction
  as numpy broadcasts them, each row divided by the row maximum of the data when
  \<^verbatim>\<open>normalize\<close> is true; \<open>df\<close> is the number of distinct values of \<open>t\<close> minus the number
  of free parameters minus one; and \<open>p\<close> is one minus the chi-square distribution function
  at \<open>c2\<close> and \<open>df\<close>.
\<close>

theorem test_chi2_statistic:
  assumes dyn: "dynamics (simulator est) (sim_params (simulator est)) (sim_x0 (simulator est)) t
                  (case method of None \<Rightarrow> default_method (simulator est) | Some m \<Rightarrow> m) = Inr X"
      and model: "(case species of None \<Rightarrow> Inr (transpose X)
                    | Some idx \<Rightarrow> select_rows (transpose X) idx) = Inr (map (map Fin) ex)"
      and data: "(case x_data of Data_1d v \<Rightarrow> [v] | Data_2d A \<Rightarrow> A) = map (map Fin) obs"
      and ro: "rect c d obs" "0 < c" "0 < d"
      and re: "rect a b ex" "0 < a" "0 < b"
      and cp: "compat c a" "compat d b"
      and ex_nz: "\<forall>row \<in> set ex. \<forall>v \<in> set row. v \<noteq> 0"
      and sc_nz: "nz \<longrightarrow> (\<forall>row \<in> set obs. Max (set row) \<noteq> 0)"
  shows "test_chi2 est cdf t x_data species method nz
           = Inr (est\<lparr>simulator := (simulator est)\<lparr>sim_t := t, sim_x0 := sim_x0 (simulator est),
                                                  sim_x := X\<rparr>\<rparr>,
                  fsub (Fin 1)
                    (cdf (Fin (pearson_chi2 (bdim c a) (bdim d b)
                                 (\<lambda>i j. bview obs i j / row_scale nz obs i)
                                 (\<lambda>i j. bview ex i j / row_scale nz obs i)))
                         (int (card (set t)) - int (n_params est) - 1)),
                  Fin (pearson_chi2 (bdim c a) (bdim d b)
                         (\<lambda>i j. bview obs i j / row_scale nz obs i)
                         (\<lambda>i j. bview ex i j / row_scale nz obs i)),
                  int (card (set t)) - int (n_params est) - 1)"
proof -
  let ?sim = "(simulator est)\<lparr>sim_t := t, sim_x0 := sim_x0 (simulator est), sim_x := X\<rparr>"
  have i: "integrate (simulator est) t None method = Inr ?sim"
    using dyn by (simp add: integrate_def Let_def)
  have x: "sim_x ?sim = X" by simp
  note n = normalized_chi2[OF ro re cp ex_nz sc_nz]
  have "test_chi2 est cdf t x_data species method nz =
      (case (case (if nz then
                 (case np_max_axis1 (map (map Fin) obs) of Inl e \<Rightarrow> Inl e
                  | Inr scale \<Rightarrow>
                 (case div_rows (map (map Fin) obs) scale of Inl e \<Rightarrow> Inl e
                  | Inr dn \<Rightarrow>
                 (case div_rows (map (map Fin) ex) scale of Inl e \<Rightarrow> Inl e
                  | Inr mn \<Rightarrow> Inr (dn, mn))))
               else Inr (map (map Fin) obs, map (map Fin) ex)) of Inl e \<Rightarrow> Inl e
         | Inr (x_data_norm, x_model_norm) \<Rightarrow> chi2_sum x_data_norm x_model_norm) of
         Inl e \<Rightarrow> Inl e
       | Inr c2 \<Rightarrow>
           Inr (est\<lparr>simulator := ?sim\<rparr>,
                fsub (Fin 1) (cdf c2 (int (length (remdups t)) - int (n_params est) - 1)), c2,
                int (length (remdups t)) - int (n_params est) - 1))"
    unfolding test_chi2_def Let_def i sum.case x model data
    by (simp split: sum.splits prod.splits)
  then show ?thesis
    unfolding n by (simp add: length_remdups_card_conv)
qed

lemma example_fitted_dynamics:
  "dynamics (simulator example_fitted) (sim_params (simulator example_fitted))
       (sim_x0 (simulator example_fitted)) [Fin 0, Fin 1]
       (case Some ''matrix'' of None \<Rightarrow> default_method (simulator example_fitted) | Some m \<Rightarrow> m)
     = Inr example_trajectory"
  by (simp add: example_fitted_def constant_simulator_def example_trajectory_def)

lemma example_fitted_state:
  "example_fitted\<lparr>simulator := (simulator example_fitted)
       \<lparr>sim_t := [Fin 0, Fin 1], sim_x0 := sim_x0 (simulator example_fitted),
        sim_x := example_trajectory\<rparr>\<rparr> = example_fitted"
  by (simp add: example_fitted_def)

lemma example_fitted_model:
  "transpose example_trajectory = map (map Fin) [[1, 1], [4, 4]]"
  by (simp add: example_trajectory_def)

lemma example_pearson:
  "pearson_chi2 (bdim 1 2) (bdim 2 2)
      (\<lambda>i j. bview [[4, 8]] i j / row_scale True [[4, 8]] i)
      (\<lambda>i j. bview [[1, 1], [4, 4]] i j / row_scale True [[4, 8]] i) = 31 / 4"
  by (simp add: pearson_chi2_def bdim_def bview_def dims_def ix_def row_scale_def
      lessThan_nat_numeral lessThan_Suc power2_eq_square)

theorem test_chi2_statistic_witness:
  "dynamics (simulator example_fitted) (sim_params (simulator example_fitted))
       (sim_x0 (simulator example_fitted)) [Fin 0, Fin 1] ''matrix'' = Inr example_trajectory
   \<and> transpose example_trajectory = map (map Fin) [[1, 1], [4, 4]]
   \<and> rect 1 2 [[4, 8 :: real]] \<and> rect 2 2 [[1, 1], [4, 4 :: real]]
   \<and> compat 1 2 \<and> compat 2 2
   \<and> list_all (list_all (\<lambda>v. v \<noteq> 0)) [[1, 1], [4, 4 :: real]]
   \<and> list_all (\<lambda>row. Max (set row) \<noteq> 0) [[4, 8 :: real]]
   \<and> test_chi2 example_fitted (\<lambda>c d. Fin (1 / 2)) [Fin 0, Fin 1] (Data_1d [Fin 4, Fin 8])
        None (Some ''matrix'') True
       = Inr (example_fitted, Fin (1 / 2), Fin (31 / 4), - 1)"
proof -
  have m: "(case None of None \<Rightarrow> Inr (transpose example_trajectory)
            | Some idx \<Rightarrow> select_rows (transpose example_trajectory) idx)
      = (Inr (map (map Fin) [[1, 1], [4, 4]]) :: py_error + npfloat list list)"
    using example_fitted_model by simp
  have d: "(case Data_1d [Fin 4, Fin 8] of Data_1d v \<Rightarrow> [v] | Data_2d A \<Rightarrow> A)
      = map (map Fin) [[4, 8]]"
    by simp
  have r: "rect 1 2 [[4, 8 :: real]]" "rect 2 2 [[1, 1], [4, 4 :: real]]"
    by (simp_all add: rect_def)
  have c: "compat 1 2" "compat 2 2" by (simp_all add: compat_def)
  have e: "\<forall>row \<in> set [[1, 1], [4, 4 :: real]]. \<forall>v \<in> set row. v \<noteq> 0" by simp
  have x: "True \<longrightarrow> (\<forall>row \<in> set [[4, 8 :: real]]. Max (set row) \<noteq> 0)" by simp
  have l: "list_all (list_all (\<lambda>v. v \<noteq> 0)) [[1, 1], [4, 4 :: real]]"
    "list_all (\<lambda>row. Max (set row) \<noteq> 0) [[4, 8 :: real]]"
    by simp_all
  have n: "int (card (set [Fin 0, Fin 1])) - int (n_params example_fitted) - 1 = - 1"
    by (simp add: example_fitted_def example_fields)
  have y: "dynamics (simulator example_fitted) (sim_params (simulator example_fitted))
       (sim_x0 (simulator example_fitted)) [Fin 0, Fin 1] ''matrix'' = Inr example_trajectory"
    using example_fitted_dynamics by simp
  from test_chi2_statistic[OF example_fitted_dynamics m d r(1) _ _ r(2) _ _ c e x,
      of "\<lambda>c d. Fin (1 / 2)"]
  have "test_chi2 example_fitted (\<lambda>c d. Fin (1 / 2)) [Fin 0, Fin 1] (Data_1d [Fin 4, Fin 8])
        None (Some ''matrix'') True
       = Inr (example_fitted, Fin (1 / 2), Fin (31 / 4), - 1)"
    unfolding example_pearson example_fitted_state n by (simp add: fsub_def)
  with y example_fitted_model r c l show ?thesis by blast
qed

end
